theory Spec2Isabelle
  imports Main "HOL-Library.Word" "HOL-Library.Monad_Syntax"
begin

section \<open>The scanner of the text format (text/lex.go)\<close>

text \<open>
  The input of the scanner is a byte slice, modelled as a \<open>string\<close> (a list of 8-bit
  characters). A rune is a decoded code point; Go's \<open>rune\<close> is a 32-bit integer, and every
  rune the scanner handles lies between 0 and 0x10FFFF, so a natural number holds it.
\<close>

type_synonym rune = nat

abbreviation rune :: "char \<Rightarrow> rune" where
  "rune c \<equiv> of_char c"

definition dquote :: char where "dquote = CHR 0x22"
definition squote :: char where "squote = CHR 0x27"
definition backslash :: char where "backslash = CHR 0x5C"
definition newline :: char where "newline = CHR 0x0A"
definition creturn :: char where "creturn = CHR 0x0D"
definition tab :: char where "tab = CHR 0x09"

definition digit :: string where "digit = ''0123456789''"
definition letter :: string where
  "letter = ''abcdefghijklmnopqrstuvwxyzABCDEFGHIJKLMNOPQRSTUVWXYZ''"
definition symbol :: string where
  "symbol = ''!#$%&'' @ [squote] @ ''*+-./:<=>?@'' @ [backslash] @ ''^_`|~''"
definition sign :: string where "sign = ''+-''"
definition keyword :: string where "keyword = letter @ digit @ ''_.:=''"
definition idChar :: string where "idChar = digit @ letter @ symbol"
definition hexDigit :: string where "hexDigit = digit @ ''abcdefABCDEF''"

definition eof :: rune where "eof = 0"

subsection \<open>Token kinds and the keyword table\<close>

text \<open>
  \<open>tokenKind\<close> is an integer type whose constants are numbered by \<open>iota\<close>, in the order
  of the declaration.
\<close>

type_synonym tokenKind = nat

definition tokenError :: tokenKind where "tokenError = 0"
definition tokenEOF :: tokenKind where "tokenEOF = 1"
definition tokenLParen :: tokenKind where "tokenLParen = 2"
definition tokenRParen :: tokenKind where "tokenRParen = 3"
definition tokenIdent :: tokenKind where "tokenIdent = 4"
definition tokenNumber :: tokenKind where "tokenNumber = 5"
definition tokenString :: tokenKind where "tokenString = 6"
definition tokenNumtype :: tokenKind where "tokenNumtype = 7"
definition tokenVectype :: tokenKind where "tokenVectype = 8"
definition tokenReftype :: tokenKind where "tokenReftype = 9"
definition tokenOffsetEq :: tokenKind where "tokenOffsetEq = 10"
definition tokenAlignEq :: tokenKind where "tokenAlignEq = 11"
definition tokenKeyword :: tokenKind where "tokenKeyword = 12"
definition tokenModule :: tokenKind where "tokenModule = 13"
definition tokenType :: tokenKind where "tokenType = 14"
definition tokenFunc :: tokenKind where "tokenFunc = 15"
definition tokenParam :: tokenKind where "tokenParam = 16"
definition tokenResult :: tokenKind where "tokenResult = 17"
definition tokenBlock :: tokenKind where "tokenBlock = 18"
definition tokenLoop :: tokenKind where "tokenLoop = 19"
definition tokenIf :: tokenKind where "tokenIf = 20"
definition tokenThen :: tokenKind where "tokenThen = 21"
definition tokenElse :: tokenKind where "tokenElse = 22"
definition tokenEnd :: tokenKind where "tokenEnd = 23"
definition tokenUnreachable :: tokenKind where "tokenUnreachable = 24"
definition tokenNop :: tokenKind where "tokenNop = 25"
definition tokenBr :: tokenKind where "tokenBr = 26"
definition tokenBrIf :: tokenKind where "tokenBrIf = 27"
definition tokenBrTable :: tokenKind where "tokenBrTable = 28"
definition tokenReturn :: tokenKind where "tokenReturn = 29"
definition tokenCall :: tokenKind where "tokenCall = 30"
definition tokenCallIndirect :: tokenKind where "tokenCallIndirect = 31"
definition tokenDrop :: tokenKind where "tokenDrop = 32"
definition tokenSelect :: tokenKind where "tokenSelect = 33"
definition tokenLocalGet :: tokenKind where "tokenLocalGet = 34"
definition tokenLocalTee :: tokenKind where "tokenLocalTee = 35"
definition tokenLocalSet :: tokenKind where "tokenLocalSet = 36"
definition tokenGlobalGet :: tokenKind where "tokenGlobalGet = 37"
definition tokenGlobalSet :: tokenKind where "tokenGlobalSet = 38"
definition tokenTableGet :: tokenKind where "tokenTableGet = 39"
definition tokenTableSet :: tokenKind where "tokenTableSet = 40"
definition tokenTableSize :: tokenKind where "tokenTableSize = 41"
definition tokenTableGrow :: tokenKind where "tokenTableGrow = 42"
definition tokenTableFill :: tokenKind where "tokenTableFill = 43"
definition tokenTableCopy :: tokenKind where "tokenTableCopy = 44"
definition tokenTableInit :: tokenKind where "tokenTableInit = 45"
definition tokenElemDrop :: tokenKind where "tokenElemDrop = 46"
definition tokenMemorySize :: tokenKind where "tokenMemorySize = 47"
definition tokenMemoryGrow :: tokenKind where "tokenMemoryGrow = 48"
definition tokenMemoryFill :: tokenKind where "tokenMemoryFill = 49"
definition tokenMemoryCopy :: tokenKind where "tokenMemoryCopy = 50"
definition tokenMemoryInit :: tokenKind where "tokenMemoryInit = 51"
definition tokenDataDrop :: tokenKind where "tokenDataDrop = 52"
definition tokenI32Load :: tokenKind where "tokenI32Load = 53"
definition tokenI64Load :: tokenKind where "tokenI64Load = 54"
definition tokenF32Load :: tokenKind where "tokenF32Load = 55"
definition tokenF64Load :: tokenKind where "tokenF64Load = 56"
definition tokenI32Store :: tokenKind where "tokenI32Store = 57"
definition tokenI64Store :: tokenKind where "tokenI64Store = 58"
definition tokenF32Store :: tokenKind where "tokenF32Store = 59"
definition tokenF64Store :: tokenKind where "tokenF64Store = 60"
definition tokenI32Load8U :: tokenKind where "tokenI32Load8U = 61"
definition tokenI32Load8S :: tokenKind where "tokenI32Load8S = 62"
definition tokenI32Load16U :: tokenKind where "tokenI32Load16U = 63"
definition tokenI32Load16S :: tokenKind where "tokenI32Load16S = 64"
definition tokenI64Load8U :: tokenKind where "tokenI64Load8U = 65"
definition tokenI64Load8S :: tokenKind where "tokenI64Load8S = 66"
definition tokenI64Load16U :: tokenKind where "tokenI64Load16U = 67"
definition tokenI64Load16S :: tokenKind where "tokenI64Load16S = 68"
definition tokenI64Load32U :: tokenKind where "tokenI64Load32U = 69"
definition tokenI64Load32S :: tokenKind where "tokenI64Load32S = 70"
definition tokenI32Store8 :: tokenKind where "tokenI32Store8 = 71"
definition tokenI32Store16 :: tokenKind where "tokenI32Store16 = 72"
definition tokenI64Store8 :: tokenKind where "tokenI64Store8 = 73"
definition tokenI64Store16 :: tokenKind where "tokenI64Store16 = 74"
definition tokenI64Store32 :: tokenKind where "tokenI64Store32 = 75"
definition tokenV128Load :: tokenKind where "tokenV128Load = 76"
definition tokenV128Store :: tokenKind where "tokenV128Store = 77"
definition tokenV128Load8x8U :: tokenKind where "tokenV128Load8x8U = 78"
definition tokenV128Load8x8S :: tokenKind where "tokenV128Load8x8S = 79"
definition tokenV128Load16x4U :: tokenKind where "tokenV128Load16x4U = 80"
definition tokenV128Load16x4S :: tokenKind where "tokenV128Load16x4S = 81"
definition tokenV128Load32x2U :: tokenKind where "tokenV128Load32x2U = 82"
definition tokenV128Load32x2S :: tokenKind where "tokenV128Load32x2S = 83"
definition tokenV128Load8Splat :: tokenKind where "tokenV128Load8Splat = 84"
definition tokenV128Load16Splat :: tokenKind where "tokenV128Load16Splat = 85"
definition tokenV128Load32Splat :: tokenKind where "tokenV128Load32Splat = 86"
definition tokenV128Load64Splat :: tokenKind where "tokenV128Load64Splat = 87"
definition tokenV128Load32Zero :: tokenKind where "tokenV128Load32Zero = 88"
definition tokenV128Load64Zero :: tokenKind where "tokenV128Load64Zero = 89"
definition tokenV128Load8Lane :: tokenKind where "tokenV128Load8Lane = 90"
definition tokenV128Load16Lane :: tokenKind where "tokenV128Load16Lane = 91"
definition tokenV128Load32Lane :: tokenKind where "tokenV128Load32Lane = 92"
definition tokenV128Load64Lane :: tokenKind where "tokenV128Load64Lane = 93"
definition tokenV128Store8Lane :: tokenKind where "tokenV128Store8Lane = 94"
definition tokenV128Store16Lane :: tokenKind where "tokenV128Store16Lane = 95"
definition tokenV128Store32Lane :: tokenKind where "tokenV128Store32Lane = 96"
definition tokenV128Store64Lane :: tokenKind where "tokenV128Store64Lane = 97"
definition tokenI32Const :: tokenKind where "tokenI32Const = 98"
definition tokenI64Const :: tokenKind where "tokenI64Const = 99"
definition tokenF32Const :: tokenKind where "tokenF32Const = 100"
definition tokenF64Const :: tokenKind where "tokenF64Const = 101"
definition tokenV128Const :: tokenKind where "tokenV128Const = 102"
definition tokenRefNull :: tokenKind where "tokenRefNull = 103"
definition tokenRefFunc :: tokenKind where "tokenRefFunc = 104"
definition tokenRefExtern :: tokenKind where "tokenRefExtern = 105"
definition tokenRefIsNull :: tokenKind where "tokenRefIsNull = 106"
definition tokenI32Clz :: tokenKind where "tokenI32Clz = 107"
definition tokenI32Ctz :: tokenKind where "tokenI32Ctz = 108"
definition tokenI32Popcnt :: tokenKind where "tokenI32Popcnt = 109"
definition tokenI32Extend8S :: tokenKind where "tokenI32Extend8S = 110"
definition tokenI32Extend16S :: tokenKind where "tokenI32Extend16S = 111"
definition tokenI64Clz :: tokenKind where "tokenI64Clz = 112"
definition tokenI64Ctz :: tokenKind where "tokenI64Ctz = 113"
definition tokenI64Popcnt :: tokenKind where "tokenI64Popcnt = 114"
definition tokenI64Extend8S :: tokenKind where "tokenI64Extend8S = 115"
definition tokenI64Extend16S :: tokenKind where "tokenI64Extend16S = 116"
definition tokenI64Extend32S :: tokenKind where "tokenI64Extend32S = 117"
definition tokenF32Neg :: tokenKind where "tokenF32Neg = 118"
definition tokenF32Abs :: tokenKind where "tokenF32Abs = 119"
definition tokenF32Sqrt :: tokenKind where "tokenF32Sqrt = 120"
definition tokenF32Ceil :: tokenKind where "tokenF32Ceil = 121"
definition tokenF32Floor :: tokenKind where "tokenF32Floor = 122"
definition tokenF32Trunc :: tokenKind where "tokenF32Trunc = 123"
definition tokenF32Nearest :: tokenKind where "tokenF32Nearest = 124"
definition tokenF64Neg :: tokenKind where "tokenF64Neg = 125"
definition tokenF64Abs :: tokenKind where "tokenF64Abs = 126"
definition tokenF64Sqrt :: tokenKind where "tokenF64Sqrt = 127"
definition tokenF64Ceil :: tokenKind where "tokenF64Ceil = 128"
definition tokenF64Floor :: tokenKind where "tokenF64Floor = 129"
definition tokenF64Trunc :: tokenKind where "tokenF64Trunc = 130"
definition tokenF64Nearest :: tokenKind where "tokenF64Nearest = 131"
definition tokenI32Add :: tokenKind where "tokenI32Add = 132"
definition tokenI32Sub :: tokenKind where "tokenI32Sub = 133"
definition tokenI32Mul :: tokenKind where "tokenI32Mul = 134"
definition tokenI32DivU :: tokenKind where "tokenI32DivU = 135"
definition tokenI32DivS :: tokenKind where "tokenI32DivS = 136"
definition tokenI32RemU :: tokenKind where "tokenI32RemU = 137"
definition tokenI32RemS :: tokenKind where "tokenI32RemS = 138"
definition tokenI32And :: tokenKind where "tokenI32And = 139"
definition tokenI32Or :: tokenKind where "tokenI32Or = 140"
definition tokenI32Xor :: tokenKind where "tokenI32Xor = 141"
definition tokenI32Shl :: tokenKind where "tokenI32Shl = 142"
definition tokenI32ShrU :: tokenKind where "tokenI32ShrU = 143"
definition tokenI32ShrS :: tokenKind where "tokenI32ShrS = 144"
definition tokenI32Rotl :: tokenKind where "tokenI32Rotl = 145"
definition tokenI32Rotr :: tokenKind where "tokenI32Rotr = 146"
definition tokenI64Add :: tokenKind where "tokenI64Add = 147"
definition tokenI64Sub :: tokenKind where "tokenI64Sub = 148"
definition tokenI64Mul :: tokenKind where "tokenI64Mul = 149"
definition tokenI64DivU :: tokenKind where "tokenI64DivU = 150"
definition tokenI64DivS :: tokenKind where "tokenI64DivS = 151"
definition tokenI64RemU :: tokenKind where "tokenI64RemU = 152"
definition tokenI64RemS :: tokenKind where "tokenI64RemS = 153"
definition tokenI64And :: tokenKind where "tokenI64And = 154"
definition tokenI64Or :: tokenKind where "tokenI64Or = 155"
definition tokenI64Xor :: tokenKind where "tokenI64Xor = 156"
definition tokenI64Shl :: tokenKind where "tokenI64Shl = 157"
definition tokenI64ShrU :: tokenKind where "tokenI64ShrU = 158"
definition tokenI64ShrS :: tokenKind where "tokenI64ShrS = 159"
definition tokenI64Rotl :: tokenKind where "tokenI64Rotl = 160"
definition tokenI64Rotr :: tokenKind where "tokenI64Rotr = 161"
definition tokenF32Add :: tokenKind where "tokenF32Add = 162"
definition tokenF32Sub :: tokenKind where "tokenF32Sub = 163"
definition tokenF32Mul :: tokenKind where "tokenF32Mul = 164"
definition tokenF32Div :: tokenKind where "tokenF32Div = 165"
definition tokenF32Min :: tokenKind where "tokenF32Min = 166"
definition tokenF32Max :: tokenKind where "tokenF32Max = 167"
definition tokenF32Copysign :: tokenKind where "tokenF32Copysign = 168"
definition tokenF64Add :: tokenKind where "tokenF64Add = 169"
definition tokenF64Sub :: tokenKind where "tokenF64Sub = 170"
definition tokenF64Mul :: tokenKind where "tokenF64Mul = 171"
definition tokenF64Div :: tokenKind where "tokenF64Div = 172"
definition tokenF64Min :: tokenKind where "tokenF64Min = 173"
definition tokenF64Max :: tokenKind where "tokenF64Max = 174"
definition tokenF64Copysign :: tokenKind where "tokenF64Copysign = 175"
definition tokenI32Eqz :: tokenKind where "tokenI32Eqz = 176"
definition tokenI64Eqz :: tokenKind where "tokenI64Eqz = 177"
definition tokenI32Eq :: tokenKind where "tokenI32Eq = 178"
definition tokenI32Ne :: tokenKind where "tokenI32Ne = 179"
definition tokenI32LtU :: tokenKind where "tokenI32LtU = 180"
definition tokenI32LtS :: tokenKind where "tokenI32LtS = 181"
definition tokenI32LeU :: tokenKind where "tokenI32LeU = 182"
definition tokenI32LeS :: tokenKind where "tokenI32LeS = 183"
definition tokenI32GtU :: tokenKind where "tokenI32GtU = 184"
definition tokenI32GtS :: tokenKind where "tokenI32GtS = 185"
definition tokenI32GeU :: tokenKind where "tokenI32GeU = 186"
definition tokenI32GeS :: tokenKind where "tokenI32GeS = 187"
definition tokenI64Eq :: tokenKind where "tokenI64Eq = 188"
definition tokenI64Ne :: tokenKind where "tokenI64Ne = 189"
definition tokenI64LtU :: tokenKind where "tokenI64LtU = 190"
definition tokenI64LtS :: tokenKind where "tokenI64LtS = 191"
definition tokenI64LeU :: tokenKind where "tokenI64LeU = 192"
definition tokenI64LeS :: tokenKind where "tokenI64LeS = 193"
definition tokenI64GtU :: tokenKind where "tokenI64GtU = 194"
definition tokenI64GtS :: tokenKind where "tokenI64GtS = 195"
definition tokenI64GeU :: tokenKind where "tokenI64GeU = 196"
definition tokenI64GeS :: tokenKind where "tokenI64GeS = 197"
definition tokenF32Eq :: tokenKind where "tokenF32Eq = 198"
definition tokenF32Ne :: tokenKind where "tokenF32Ne = 199"
definition tokenF32Lt :: tokenKind where "tokenF32Lt = 200"
definition tokenF32Le :: tokenKind where "tokenF32Le = 201"
definition tokenF32Gt :: tokenKind where "tokenF32Gt = 202"
definition tokenF32Ge :: tokenKind where "tokenF32Ge = 203"
definition tokenF64Eq :: tokenKind where "tokenF64Eq = 204"
definition tokenF64Ne :: tokenKind where "tokenF64Ne = 205"
definition tokenF64Lt :: tokenKind where "tokenF64Lt = 206"
definition tokenF64Le :: tokenKind where "tokenF64Le = 207"
definition tokenF64Gt :: tokenKind where "tokenF64Gt = 208"
definition tokenF64Ge :: tokenKind where "tokenF64Ge = 209"
definition tokenI32WrapI64 :: tokenKind where "tokenI32WrapI64 = 210"
definition tokenI64ExtendI32S :: tokenKind where "tokenI64ExtendI32S = 211"
definition tokenI64ExtendI32U :: tokenKind where "tokenI64ExtendI32U = 212"
definition tokenF32DemoteF64 :: tokenKind where "tokenF32DemoteF64 = 213"
definition tokenF64PromoteF32 :: tokenKind where "tokenF64PromoteF32 = 214"
definition tokenI32TruncF32U :: tokenKind where "tokenI32TruncF32U = 215"
definition tokenI32TruncF32S :: tokenKind where "tokenI32TruncF32S = 216"
definition tokenI64TruncF32U :: tokenKind where "tokenI64TruncF32U = 217"
definition tokenI64TruncF32S :: tokenKind where "tokenI64TruncF32S = 218"
definition tokenI32TruncF64U :: tokenKind where "tokenI32TruncF64U = 219"
definition tokenI32TruncF64S :: tokenKind where "tokenI32TruncF64S = 220"
definition tokenI64TruncF64U :: tokenKind where "tokenI64TruncF64U = 221"
definition tokenI64TruncF64S :: tokenKind where "tokenI64TruncF64S = 222"
definition tokenI32TruncSatF32U :: tokenKind where "tokenI32TruncSatF32U = 223"
definition tokenI32TruncSatF32S :: tokenKind where "tokenI32TruncSatF32S = 224"
definition tokenI64TruncSatF32U :: tokenKind where "tokenI64TruncSatF32U = 225"
definition tokenI64TruncSatF32S :: tokenKind where "tokenI64TruncSatF32S = 226"
definition tokenI32TruncSatF64U :: tokenKind where "tokenI32TruncSatF64U = 227"
definition tokenI32TruncSatF64S :: tokenKind where "tokenI32TruncSatF64S = 228"
definition tokenI64TruncSatF64U :: tokenKind where "tokenI64TruncSatF64U = 229"
definition tokenI64TruncSatF64S :: tokenKind where "tokenI64TruncSatF64S = 230"
definition tokenF32ConvertI32U :: tokenKind where "tokenF32ConvertI32U = 231"
definition tokenF32ConvertI32S :: tokenKind where "tokenF32ConvertI32S = 232"
definition tokenF64ConvertI32U :: tokenKind where "tokenF64ConvertI32U = 233"
definition tokenF64ConvertI32S :: tokenKind where "tokenF64ConvertI32S = 234"
definition tokenF32ConvertI64U :: tokenKind where "tokenF32ConvertI64U = 235"
definition tokenF32ConvertI64S :: tokenKind where "tokenF32ConvertI64S = 236"
definition tokenF64ConvertI64U :: tokenKind where "tokenF64ConvertI64U = 237"
definition tokenF64ConvertI64S :: tokenKind where "tokenF64ConvertI64S = 238"
definition tokenF32ReinterpretI32 :: tokenKind where "tokenF32ReinterpretI32 = 239"
definition tokenF64ReinterpretI64 :: tokenKind where "tokenF64ReinterpretI64 = 240"
definition tokenI32ReinterpretF32 :: tokenKind where "tokenI32ReinterpretF32 = 241"
definition tokenI64ReinterpretF64 :: tokenKind where "tokenI64ReinterpretF64 = 242"
definition tokenV128Not :: tokenKind where "tokenV128Not = 243"
definition tokenV128And :: tokenKind where "tokenV128And = 244"
definition tokenV128Andnot :: tokenKind where "tokenV128Andnot = 245"
definition tokenV128Or :: tokenKind where "tokenV128Or = 246"
definition tokenV128Xor :: tokenKind where "tokenV128Xor = 247"
definition tokenV128Bitselect :: tokenKind where "tokenV128Bitselect = 248"
definition tokenV128AnyTrue :: tokenKind where "tokenV128AnyTrue = 249"
definition tokenI8x16Neg :: tokenKind where "tokenI8x16Neg = 250"
definition tokenI16x8Neg :: tokenKind where "tokenI16x8Neg = 251"
definition tokenI32x4Neg :: tokenKind where "tokenI32x4Neg = 252"
definition tokenI64x2Neg :: tokenKind where "tokenI64x2Neg = 253"
definition tokenI8x16Abs :: tokenKind where "tokenI8x16Abs = 254"
definition tokenI16x8Abs :: tokenKind where "tokenI16x8Abs = 255"
definition tokenI32x4Abs :: tokenKind where "tokenI32x4Abs = 256"
definition tokenI64x2Abs :: tokenKind where "tokenI64x2Abs = 257"
definition tokenI8x16Popcnt :: tokenKind where "tokenI8x16Popcnt = 258"
definition tokenI8x16AvgrU :: tokenKind where "tokenI8x16AvgrU = 259"
definition tokenI16x8AvgrU :: tokenKind where "tokenI16x8AvgrU = 260"
definition tokenF32x4Neg :: tokenKind where "tokenF32x4Neg = 261"
definition tokenF64x2Neg :: tokenKind where "tokenF64x2Neg = 262"
definition tokenF32x4Abs :: tokenKind where "tokenF32x4Abs = 263"
definition tokenF64x2Abs :: tokenKind where "tokenF64x2Abs = 264"
definition tokenF32x4Sqrt :: tokenKind where "tokenF32x4Sqrt = 265"
definition tokenF64x2Sqrt :: tokenKind where "tokenF64x2Sqrt = 266"
definition tokenF32x4Ceil :: tokenKind where "tokenF32x4Ceil = 267"
definition tokenF64x2Ceil :: tokenKind where "tokenF64x2Ceil = 268"
definition tokenF32x4Floor :: tokenKind where "tokenF32x4Floor = 269"
definition tokenF64x2Floor :: tokenKind where "tokenF64x2Floor = 270"
definition tokenF32x4Trunc :: tokenKind where "tokenF32x4Trunc = 271"
definition tokenF64x2Trunc :: tokenKind where "tokenF64x2Trunc = 272"
definition tokenF32x4Nearest :: tokenKind where "tokenF32x4Nearest = 273"
definition tokenF64x2Nearest :: tokenKind where "tokenF64x2Nearest = 274"
definition tokenI32x4TruncSatF32x4U :: tokenKind where "tokenI32x4TruncSatF32x4U = 275"
definition tokenI32x4TruncSatF32x4S :: tokenKind where "tokenI32x4TruncSatF32x4S = 276"
definition tokenI32x4TruncSatF64x2UZero :: tokenKind where "tokenI32x4TruncSatF64x2UZero = 277"
definition tokenI32x4TruncSatF64x2SZero :: tokenKind where "tokenI32x4TruncSatF64x2SZero = 278"
definition tokenF64x2PromoteLowF32x4 :: tokenKind where "tokenF64x2PromoteLowF32x4 = 279"
definition tokenF32x4DemoteF64x2Zero :: tokenKind where "tokenF32x4DemoteF64x2Zero = 280"
definition tokenF32x4ConvertI32x4U :: tokenKind where "tokenF32x4ConvertI32x4U = 281"
definition tokenF32x4ConvertI32x4S :: tokenKind where "tokenF32x4ConvertI32x4S = 282"
definition tokenF64x2ConvertLowI32x4U :: tokenKind where "tokenF64x2ConvertLowI32x4U = 283"
definition tokenF64x2ConvertLowI32x4S :: tokenKind where "tokenF64x2ConvertLowI32x4S = 284"
definition tokenI16x8ExtaddPairwiseI8x16U :: tokenKind where "tokenI16x8ExtaddPairwiseI8x16U = 285"
definition tokenI16x8ExtaddPairwiseI8x16S :: tokenKind where "tokenI16x8ExtaddPairwiseI8x16S = 286"
definition tokenI32x4ExtaddPairwiseI16x8U :: tokenKind where "tokenI32x4ExtaddPairwiseI16x8U = 287"
definition tokenI32x4ExtaddPairwiseI16x8S :: tokenKind where "tokenI32x4ExtaddPairwiseI16x8S = 288"
definition tokenI8x16Eq :: tokenKind where "tokenI8x16Eq = 289"
definition tokenI16x8Eq :: tokenKind where "tokenI16x8Eq = 290"
definition tokenI32x4Eq :: tokenKind where "tokenI32x4Eq = 291"
definition tokenI64x2Eq :: tokenKind where "tokenI64x2Eq = 292"
definition tokenI8x16Ne :: tokenKind where "tokenI8x16Ne = 293"
definition tokenI16x8Ne :: tokenKind where "tokenI16x8Ne = 294"
definition tokenI32x4Ne :: tokenKind where "tokenI32x4Ne = 295"
definition tokenI64x2Ne :: tokenKind where "tokenI64x2Ne = 296"
definition tokenI8x16LtU :: tokenKind where "tokenI8x16LtU = 297"
definition tokenI8x16LtS :: tokenKind where "tokenI8x16LtS = 298"
definition tokenI16x8LtU :: tokenKind where "tokenI16x8LtU = 299"
definition tokenI16x8LtS :: tokenKind where "tokenI16x8LtS = 300"
definition tokenI32x4LtU :: tokenKind where "tokenI32x4LtU = 301"
definition tokenI32x4LtS :: tokenKind where "tokenI32x4LtS = 302"
definition tokenI64x2LtS :: tokenKind where "tokenI64x2LtS = 303"
definition tokenI8x16LeU :: tokenKind where "tokenI8x16LeU = 304"
definition tokenI8x16LeS :: tokenKind where "tokenI8x16LeS = 305"
definition tokenI16x8LeU :: tokenKind where "tokenI16x8LeU = 306"
definition tokenI16x8LeS :: tokenKind where "tokenI16x8LeS = 307"
definition tokenI32x4LeU :: tokenKind where "tokenI32x4LeU = 308"
definition tokenI32x4LeS :: tokenKind where "tokenI32x4LeS = 309"
definition tokenI64x2LeS :: tokenKind where "tokenI64x2LeS = 310"
definition tokenI8x16GtU :: tokenKind where "tokenI8x16GtU = 311"
definition tokenI8x16GtS :: tokenKind where "tokenI8x16GtS = 312"
definition tokenI16x8GtU :: tokenKind where "tokenI16x8GtU = 313"
definition tokenI16x8GtS :: tokenKind where "tokenI16x8GtS = 314"
definition tokenI32x4GtU :: tokenKind where "tokenI32x4GtU = 315"
definition tokenI32x4GtS :: tokenKind where "tokenI32x4GtS = 316"
definition tokenI64x2GtS :: tokenKind where "tokenI64x2GtS = 317"
definition tokenI8x16GeU :: tokenKind where "tokenI8x16GeU = 318"
definition tokenI8x16GeS :: tokenKind where "tokenI8x16GeS = 319"
definition tokenI16x8GeU :: tokenKind where "tokenI16x8GeU = 320"
definition tokenI16x8GeS :: tokenKind where "tokenI16x8GeS = 321"
definition tokenI32x4GeU :: tokenKind where "tokenI32x4GeU = 322"
definition tokenI32x4GeS :: tokenKind where "tokenI32x4GeS = 323"
definition tokenI64x2GeS :: tokenKind where "tokenI64x2GeS = 324"
definition tokenF32x4Eq :: tokenKind where "tokenF32x4Eq = 325"
definition tokenF64x2Eq :: tokenKind where "tokenF64x2Eq = 326"
definition tokenF32x4Ne :: tokenKind where "tokenF32x4Ne = 327"
definition tokenF64x2Ne :: tokenKind where "tokenF64x2Ne = 328"
definition tokenF32x4Lt :: tokenKind where "tokenF32x4Lt = 329"
definition tokenF64x2Lt :: tokenKind where "tokenF64x2Lt = 330"
definition tokenF32x4Le :: tokenKind where "tokenF32x4Le = 331"
definition tokenF64x2Le :: tokenKind where "tokenF64x2Le = 332"
definition tokenF32x4Gt :: tokenKind where "tokenF32x4Gt = 333"
definition tokenF64x2Gt :: tokenKind where "tokenF64x2Gt = 334"
definition tokenF32x4Ge :: tokenKind where "tokenF32x4Ge = 335"
definition tokenF64x2Ge :: tokenKind where "tokenF64x2Ge = 336"
definition tokenI8x16Swizzle :: tokenKind where "tokenI8x16Swizzle = 337"
definition tokenI8x16Add :: tokenKind where "tokenI8x16Add = 338"
definition tokenI16x8Add :: tokenKind where "tokenI16x8Add = 339"
definition tokenI32x4Add :: tokenKind where "tokenI32x4Add = 340"
definition tokenI64x2Add :: tokenKind where "tokenI64x2Add = 341"
definition tokenI8x16Sub :: tokenKind where "tokenI8x16Sub = 342"
definition tokenI16x8Sub :: tokenKind where "tokenI16x8Sub = 343"
definition tokenI32x4Sub :: tokenKind where "tokenI32x4Sub = 344"
definition tokenI64x2Sub :: tokenKind where "tokenI64x2Sub = 345"
definition tokenI16x8Mul :: tokenKind where "tokenI16x8Mul = 346"
definition tokenI32x4Mul :: tokenKind where "tokenI32x4Mul = 347"
definition tokenI64x2Mul :: tokenKind where "tokenI64x2Mul = 348"
definition tokenI8x16AddSatU :: tokenKind where "tokenI8x16AddSatU = 349"
definition tokenI8x16AddSatS :: tokenKind where "tokenI8x16AddSatS = 350"
definition tokenI16x8AddSatU :: tokenKind where "tokenI16x8AddSatU = 351"
definition tokenI16x8AddSatS :: tokenKind where "tokenI16x8AddSatS = 352"
definition tokenI8x16SubSatU :: tokenKind where "tokenI8x16SubSatU = 353"
definition tokenI8x16SubSatS :: tokenKind where "tokenI8x16SubSatS = 354"
definition tokenI16x8SubSatU :: tokenKind where "tokenI16x8SubSatU = 355"
definition tokenI16x8SubSatS :: tokenKind where "tokenI16x8SubSatS = 356"
definition tokenI32x4DotI16x8S :: tokenKind where "tokenI32x4DotI16x8S = 357"
definition tokenI8x16MinU :: tokenKind where "tokenI8x16MinU = 358"
definition tokenI16x8MinU :: tokenKind where "tokenI16x8MinU = 359"
definition tokenI32x4MinU :: tokenKind where "tokenI32x4MinU = 360"
definition tokenI8x16MinS :: tokenKind where "tokenI8x16MinS = 361"
definition tokenI16x8MinS :: tokenKind where "tokenI16x8MinS = 362"
definition tokenI32x4MinS :: tokenKind where "tokenI32x4MinS = 363"
definition tokenI8x16MaxU :: tokenKind where "tokenI8x16MaxU = 364"
definition tokenI16x8MaxU :: tokenKind where "tokenI16x8MaxU = 365"
definition tokenI32x4MaxU :: tokenKind where "tokenI32x4MaxU = 366"
definition tokenI8x16MaxS :: tokenKind where "tokenI8x16MaxS = 367"
definition tokenI16x8MaxS :: tokenKind where "tokenI16x8MaxS = 368"
definition tokenI32x4MaxS :: tokenKind where "tokenI32x4MaxS = 369"
definition tokenF32x4Add :: tokenKind where "tokenF32x4Add = 370"
definition tokenF64x2Add :: tokenKind where "tokenF64x2Add = 371"
definition tokenF32x4Sub :: tokenKind where "tokenF32x4Sub = 372"
definition tokenF64x2Sub :: tokenKind where "tokenF64x2Sub = 373"
definition tokenF32x4Mul :: tokenKind where "tokenF32x4Mul = 374"
definition tokenF64x2Mul :: tokenKind where "tokenF64x2Mul = 375"
definition tokenF32x4Div :: tokenKind where "tokenF32x4Div = 376"
definition tokenF64x2Div :: tokenKind where "tokenF64x2Div = 377"
definition tokenF32x4Min :: tokenKind where "tokenF32x4Min = 378"
definition tokenF64x2Min :: tokenKind where "tokenF64x2Min = 379"
definition tokenF32x4Max :: tokenKind where "tokenF32x4Max = 380"
definition tokenF64x2Max :: tokenKind where "tokenF64x2Max = 381"
definition tokenF32x4Pmin :: tokenKind where "tokenF32x4Pmin = 382"
definition tokenF64x2Pmin :: tokenKind where "tokenF64x2Pmin = 383"
definition tokenF32x4Pmax :: tokenKind where "tokenF32x4Pmax = 384"
definition tokenF64x2Pmax :: tokenKind where "tokenF64x2Pmax = 385"
definition tokenI16x8Q15mulrSatS :: tokenKind where "tokenI16x8Q15mulrSatS = 386"
definition tokenI8x16NarrowI16x8U :: tokenKind where "tokenI8x16NarrowI16x8U = 387"
definition tokenI8x16NarrowI16x8S :: tokenKind where "tokenI8x16NarrowI16x8S = 388"
definition tokenI16x8NarrowI32x4U :: tokenKind where "tokenI16x8NarrowI32x4U = 389"
definition tokenI16x8NarrowI32x4S :: tokenKind where "tokenI16x8NarrowI32x4S = 390"
definition tokenI16x8ExtendLowI8x16U :: tokenKind where "tokenI16x8ExtendLowI8x16U = 391"
definition tokenI16x8ExtendLowI8x16S :: tokenKind where "tokenI16x8ExtendLowI8x16S = 392"
definition tokenI16x8ExtendHighI8x16U :: tokenKind where "tokenI16x8ExtendHighI8x16U = 393"
definition tokenI16x8ExtendHighI8x16S :: tokenKind where "tokenI16x8ExtendHighI8x16S = 394"
definition tokenI32x4ExtendLowI16x8U :: tokenKind where "tokenI32x4ExtendLowI16x8U = 395"
definition tokenI32x4ExtendLowI16x8S :: tokenKind where "tokenI32x4ExtendLowI16x8S = 396"
definition tokenI32x4ExtendHighI16x8U :: tokenKind where "tokenI32x4ExtendHighI16x8U = 397"
definition tokenI32x4ExtendHighI16x8S :: tokenKind where "tokenI32x4ExtendHighI16x8S = 398"
definition tokenI64x2ExtendLowI32x4U :: tokenKind where "tokenI64x2ExtendLowI32x4U = 399"
definition tokenI64x2ExtendLowI32x4S :: tokenKind where "tokenI64x2ExtendLowI32x4S = 400"
definition tokenI64x2ExtendHighI32x4U :: tokenKind where "tokenI64x2ExtendHighI32x4U = 401"
definition tokenI64x2ExtendHighI32x4S :: tokenKind where "tokenI64x2ExtendHighI32x4S = 402"
definition tokenI16x8ExtmulLowI8x16U :: tokenKind where "tokenI16x8ExtmulLowI8x16U = 403"
definition tokenI16x8ExtmulLowI8x16S :: tokenKind where "tokenI16x8ExtmulLowI8x16S = 404"
definition tokenI16x8ExtmulHighI8x16U :: tokenKind where "tokenI16x8ExtmulHighI8x16U = 405"
definition tokenI16x8ExtmulHighI8x16S :: tokenKind where "tokenI16x8ExtmulHighI8x16S = 406"
definition tokenI32x4ExtmulLowI16x8U :: tokenKind where "tokenI32x4ExtmulLowI16x8U = 407"
definition tokenI32x4ExtmulLowI16x8S :: tokenKind where "tokenI32x4ExtmulLowI16x8S = 408"
definition tokenI32x4ExtmulHighI16x8U :: tokenKind where "tokenI32x4ExtmulHighI16x8U = 409"
definition tokenI32x4ExtmulHighI16x8S :: tokenKind where "tokenI32x4ExtmulHighI16x8S = 410"
definition tokenI64x2ExtmulLowI32x4U :: tokenKind where "tokenI64x2ExtmulLowI32x4U = 411"
definition tokenI64x2ExtmulLowI32x4S :: tokenKind where "tokenI64x2ExtmulLowI32x4S = 412"
definition tokenI64x2ExtmulHighI32x4U :: tokenKind where "tokenI64x2ExtmulHighI32x4U = 413"
definition tokenI64x2ExtmulHighI32x4S :: tokenKind where "tokenI64x2ExtmulHighI32x4S = 414"
definition tokenI8x16AllTrue :: tokenKind where "tokenI8x16AllTrue = 415"
definition tokenI16x8AllTrue :: tokenKind where "tokenI16x8AllTrue = 416"
definition tokenI32x4AllTrue :: tokenKind where "tokenI32x4AllTrue = 417"
definition tokenI64x2AllTrue :: tokenKind where "tokenI64x2AllTrue = 418"
definition tokenI8x16Bitmask :: tokenKind where "tokenI8x16Bitmask = 419"
definition tokenI16x8Bitmask :: tokenKind where "tokenI16x8Bitmask = 420"
definition tokenI32x4Bitmask :: tokenKind where "tokenI32x4Bitmask = 421"
definition tokenI64x2Bitmask :: tokenKind where "tokenI64x2Bitmask = 422"
definition tokenI8x16Shl :: tokenKind where "tokenI8x16Shl = 423"
definition tokenI16x8Shl :: tokenKind where "tokenI16x8Shl = 424"
definition tokenI32x4Shl :: tokenKind where "tokenI32x4Shl = 425"
definition tokenI64x2Shl :: tokenKind where "tokenI64x2Shl = 426"
definition tokenI8x16ShrU :: tokenKind where "tokenI8x16ShrU = 427"
definition tokenI8x16ShrS :: tokenKind where "tokenI8x16ShrS = 428"
definition tokenI16x8ShrU :: tokenKind where "tokenI16x8ShrU = 429"
definition tokenI16x8ShrS :: tokenKind where "tokenI16x8ShrS = 430"
definition tokenI32x4ShrU :: tokenKind where "tokenI32x4ShrU = 431"
definition tokenI32x4ShrS :: tokenKind where "tokenI32x4ShrS = 432"
definition tokenI64x2ShrU :: tokenKind where "tokenI64x2ShrU = 433"
definition tokenI64x2ShrS :: tokenKind where "tokenI64x2ShrS = 434"
definition tokenI8x16Shuffle :: tokenKind where "tokenI8x16Shuffle = 435"
definition tokenI8x16Splat :: tokenKind where "tokenI8x16Splat = 436"
definition tokenI16x8Splat :: tokenKind where "tokenI16x8Splat = 437"
definition tokenI32x4Splat :: tokenKind where "tokenI32x4Splat = 438"
definition tokenI64x2Splat :: tokenKind where "tokenI64x2Splat = 439"
definition tokenF32x4Splat :: tokenKind where "tokenF32x4Splat = 440"
definition tokenF64x2Splat :: tokenKind where "tokenF64x2Splat = 441"
definition tokenI8x16ExtractLaneU :: tokenKind where "tokenI8x16ExtractLaneU = 442"
definition tokenI8x16ExtractLaneS :: tokenKind where "tokenI8x16ExtractLaneS = 443"
definition tokenI16x8ExtractLaneU :: tokenKind where "tokenI16x8ExtractLaneU = 444"
definition tokenI16x8ExtractLaneS :: tokenKind where "tokenI16x8ExtractLaneS = 445"
definition tokenI32x4ExtractLane :: tokenKind where "tokenI32x4ExtractLane = 446"
definition tokenI64x2ExtractLane :: tokenKind where "tokenI64x2ExtractLane = 447"
definition tokenF32x4ExtractLane :: tokenKind where "tokenF32x4ExtractLane = 448"
definition tokenF64x2ExtractLane :: tokenKind where "tokenF64x2ExtractLane = 449"
definition tokenI8x16ReplaceLane :: tokenKind where "tokenI8x16ReplaceLane = 450"
definition tokenI16x8ReplaceLane :: tokenKind where "tokenI16x8ReplaceLane = 451"
definition tokenI32x4ReplaceLane :: tokenKind where "tokenI32x4ReplaceLane = 452"
definition tokenI64x2ReplaceLane :: tokenKind where "tokenI64x2ReplaceLane = 453"
definition tokenF32x4ReplaceLane :: tokenKind where "tokenF32x4ReplaceLane = 454"
definition tokenF64x2ReplaceLane :: tokenKind where "tokenF64x2ReplaceLane = 455"
definition tokenStart :: tokenKind where "tokenStart = 456"
definition tokenLocal :: tokenKind where "tokenLocal = 457"
definition tokenGlobal :: tokenKind where "tokenGlobal = 458"
definition tokenTable :: tokenKind where "tokenTable = 459"
definition tokenMemory :: tokenKind where "tokenMemory = 460"
definition tokenElem :: tokenKind where "tokenElem = 461"
definition tokenData :: tokenKind where "tokenData = 462"
definition tokenDeclare :: tokenKind where "tokenDeclare = 463"
definition tokenOffset :: tokenKind where "tokenOffset = 464"
definition tokenItem :: tokenKind where "tokenItem = 465"
definition tokenImport :: tokenKind where "tokenImport = 466"
definition tokenExport :: tokenKind where "tokenExport = 467"
definition tokenBin :: tokenKind where "tokenBin = 468"
definition tokenQuote :: tokenKind where "tokenQuote = 469"
definition tokenScript :: tokenKind where "tokenScript = 470"
definition tokenRegister :: tokenKind where "tokenRegister = 471"
definition tokenInvoke :: tokenKind where "tokenInvoke = 472"
definition tokenGet :: tokenKind where "tokenGet = 473"
definition tokenAssertMalformed :: tokenKind where "tokenAssertMalformed = 474"
definition tokenAssertInvalid :: tokenKind where "tokenAssertInvalid = 475"
definition tokenAssertUnlinkable :: tokenKind where "tokenAssertUnlinkable = 476"
definition tokenAssertReturn :: tokenKind where "tokenAssertReturn = 477"
definition tokenAssertTrap :: tokenKind where "tokenAssertTrap = 478"
definition tokenAssertExhaustion :: tokenKind where "tokenAssertExhaustion = 479"
definition tokenNanCanonical :: tokenKind where "tokenNanCanonical = 480"
definition tokenNanArithmetic :: tokenKind where "tokenNanArithmetic = 481"
definition tokenInput :: tokenKind where "tokenInput = 482"
definition tokenOuput :: tokenKind where "tokenOuput = 483"
definition tokenExtern :: tokenKind where "tokenExtern = 484"
definition tokenExternRef :: tokenKind where "tokenExternRef = 485"
definition tokenFuncRef :: tokenKind where "tokenFuncRef = 486"
definition tokenMut :: tokenKind where "tokenMut = 487"

definition key_table :: "(string \<times> tokenKind) list" where
  "key_table = [
  (''i32'', tokenNumtype),
  (''i64'', tokenNumtype),
  (''f32'', tokenNumtype),
  (''f64'', tokenNumtype),
  (''v128'', tokenVectype),
  (''unreachable'', tokenUnreachable),
  (''nop'', tokenNop),
  (''br'', tokenBr),
  (''br_if'', tokenBrIf),
  (''br_table'', tokenBrTable),
  (''return'', tokenReturn),
  (''call'', tokenCall),
  (''call_indirect'', tokenCallIndirect),
  (''drop'', tokenDrop),
  (''module'', tokenModule),
  (''type'', tokenType),
  (''func'', tokenFunc),
  (''param'', tokenParam),
  (''result'', tokenResult),
  (''block'', tokenBlock),
  (''loop'', tokenLoop),
  (''if'', tokenIf),
  (''else'', tokenElse),
  (''end'', tokenEnd),
  (''select'', tokenSelect),
  (''offset='', tokenOffsetEq),
  (''align='', tokenAlignEq),
  (''memory.size'', tokenMemorySize),
  (''memory.grow'', tokenMemoryGrow),
  (''memory.fill'', tokenMemoryFill),
  (''memory.copy'', tokenMemoryCopy),
  (''memory.init'', tokenMemoryInit),
  (''data.drop'', tokenDataDrop),
  (''local.get'', tokenLocalGet),
  (''local.set'', tokenLocalSet),
  (''local.tee'', tokenLocalTee),
  (''global.get'', tokenGlobalGet),
  (''global.set'', tokenGlobalSet),
  (''table.get'', tokenTableGet),
  (''table.set'', tokenTableSet),
  (''table.size'', tokenTableSize),
  (''table.grow'', tokenTableGrow),
  (''table.fill'', tokenTableFill),
  (''table.copy'', tokenTableCopy),
  (''table.init'', tokenTableInit),
  (''elem.drop'', tokenElemDrop),
  (''start'', tokenStart),
  (''local'', tokenLocal),
  (''global'', tokenGlobal),
  (''table'', tokenTable),
  (''memory'', tokenMemory),
  (''elem'', tokenElem),
  (''data'', tokenData),
  (''declare'', tokenDeclare),
  (''offset'', tokenOffset),
  (''item'', tokenItem),
  (''import'', tokenImport),
  (''export'', tokenExport),
  (''binary'', tokenBin),
  (''quote'', tokenQuote),
  (''script'', tokenScript),
  (''register'', tokenRegister),
  (''invoke'', tokenInvoke),
  (''get'', tokenGet),
  (''assert_malformed'', tokenAssertMalformed),
  (''assert_invalid'', tokenAssertInvalid),
  (''assert_unlinkable'', tokenAssertUnlinkable),
  (''assert_return'', tokenAssertReturn),
  (''assert_trap'', tokenAssertTrap),
  (''assert_exhaustion'', tokenAssertExhaustion),
  (''nan:canonical'', tokenNanCanonical),
  (''nan:arithmetic'', tokenNanArithmetic),
  (''input'', tokenInput),
  (''output'', tokenOuput),
  (''i32.load'', tokenI32Load),
  (''i64.load'', tokenI64Load),
  (''f32.load'', tokenF32Load),
  (''f64.load'', tokenF64Load),
  (''i32.store'', tokenI32Store),
  (''i64.store'', tokenI64Store),
  (''f32.store'', tokenF32Store),
  (''f64.store'', tokenF64Store),
  (''i32.load8_u'', tokenI32Load8U),
  (''i32.load8_s'', tokenI32Load8S),
  (''i32.load16_u'', tokenI32Load16U),
  (''i32.load16_s'', tokenI32Load16S),
  (''i64.load8_u'', tokenI64Load8U),
  (''i64.load8_s'', tokenI64Load8S),
  (''i64.load16_u'', tokenI64Load16U),
  (''i64.load16_s'', tokenI64Load16S),
  (''i64.load32_u'', tokenI64Load32U),
  (''i64.load32_s'', tokenI64Load32S),
  (''i32.store8'', tokenI32Store8),
  (''i32.store16'', tokenI32Store16),
  (''i64.store8'', tokenI64Store8),
  (''i64.store16'', tokenI64Store16),
  (''i64.store32'', tokenI64Store32),
  (''v128.load'', tokenV128Load),
  (''v128.store'', tokenV128Store),
  (''v128.load8x8_u'', tokenV128Load8x8U),
  (''v128.load8x8_s'', tokenV128Load8x8S),
  (''v128.load16x4_u'', tokenV128Load16x4U),
  (''v128.load16x4_s'', tokenV128Load16x4S),
  (''v128.load32x2_u'', tokenV128Load32x2U),
  (''v128.load32x2_s'', tokenV128Load32x2S),
  (''v128.load8_splat'', tokenV128Load8Splat),
  (''v128.load16_splat'', tokenV128Load16Splat),
  (''v128.load32_splat'', tokenV128Load32Splat),
  (''v128.load64_splat'', tokenV128Load64Splat),
  (''v128.load32_zero'', tokenV128Load32Zero),
  (''v128.load64_zero'', tokenV128Load64Zero),
  (''v128.load8_lane'', tokenV128Load8Lane),
  (''v128.load16_lane'', tokenV128Load16Lane),
  (''v128.load32_lane'', tokenV128Load32Lane),
  (''v128.load64_lane'', tokenV128Load64Lane),
  (''v128.store8_lane'', tokenV128Store8Lane),
  (''v128.store16_lane'', tokenV128Store16Lane),
  (''v128.store32_lane'', tokenV128Store32Lane),
  (''v128.store64_lane'', tokenV128Store64Lane),
  (''i32.const'', tokenI32Const),
  (''i64.const'', tokenI64Const),
  (''f32.const'', tokenF32Const),
  (''f64.const'', tokenF64Const),
  (''v128.const'', tokenV128Const),
  (''extern'', tokenExtern),
  (''externref'', tokenExternRef),
  (''funcref'', tokenFuncRef),
  (''mut'', tokenMut),
  (''ref.null'', tokenRefNull),
  (''ref.func'', tokenRefFunc),
  (''ref.extern'', tokenRefExtern),
  (''ref.is_null'', tokenRefIsNull),
  (''i32.clz'', tokenI32Clz),
  (''i32.ctz'', tokenI32Ctz),
  (''i32.popcnt'', tokenI32Popcnt),
  (''i32.extend8_s'', tokenI32Extend8S),
  (''i32.extend16_s'', tokenI32Extend16S),
  (''i64.clz'', tokenI64Clz),
  (''i64.ctz'', tokenI64Ctz),
  (''i64.popcnt'', tokenI64Popcnt),
  (''i64.extend8_s'', tokenI64Extend8S),
  (''i64.extend16_s'', tokenI64Extend16S),
  (''i64.extend32_s'', tokenI64Extend32S),
  (''f32.neg'', tokenF32Neg),
  (''f32.abs'', tokenF32Abs),
  (''f32.sqrt'', tokenF32Sqrt),
  (''f32.ceil'', tokenF32Ceil),
  (''f32.floor'', tokenF32Floor),
  (''f32.trunc'', tokenF32Trunc),
  (''f32.nearest'', tokenF32Nearest),
  (''f64.neg'', tokenF64Neg),
  (''f64.abs'', tokenF64Abs),
  (''f64.sqrt'', tokenF64Sqrt),
  (''f64.ceil'', tokenF64Ceil),
  (''f64.floor'', tokenF64Floor),
  (''f64.trunc'', tokenF64Trunc),
  (''f64.nearest'', tokenF64Nearest),
  (''i32.add'', tokenI32Add),
  (''i32.sub'', tokenI32Sub),
  (''i32.mul'', tokenI32Mul),
  (''i32.div_u'', tokenI32DivU),
  (''i32.div_s'', tokenI32DivS),
  (''i32.rem_u'', tokenI32RemU),
  (''i32.rem_s'', tokenI32RemS),
  (''i32.and'', tokenI32And),
  (''i32.or'', tokenI32Or),
  (''i32.xor'', tokenI32Xor),
  (''i32.shl'', tokenI32Shl),
  (''i32.shr_u'', tokenI32ShrU),
  (''i32.shr_s'', tokenI32ShrS),
  (''i32.rotl'', tokenI32Rotl),
  (''i32.rotr'', tokenI32Rotr),
  (''i64.add'', tokenI64Add),
  (''i64.sub'', tokenI64Sub),
  (''i64.mul'', tokenI64Mul),
  (''i64.div_u'', tokenI64DivU),
  (''i64.div_s'', tokenI64DivS),
  (''i64.rem_u'', tokenI64RemU),
  (''i64.rem_s'', tokenI64RemS),
  (''i64.and'', tokenI64And),
  (''i64.or'', tokenI64Or),
  (''i64.xor'', tokenI64Xor),
  (''i64.shl'', tokenI64Shl),
  (''i64.shr_u'', tokenI64ShrU),
  (''i64.shr_s'', tokenI64ShrS),
  (''i64.rotl'', tokenI64Rotl),
  (''i64.rotr'', tokenI64Rotr),
  (''f32.add'', tokenF32Add),
  (''f32.sub'', tokenF32Sub),
  (''f32.mul'', tokenF32Mul),
  (''f32.div'', tokenF32Div),
  (''f32.min'', tokenF32Min),
  (''f32.max'', tokenF32Max),
  (''f32.copysign'', tokenF32Copysign),
  (''f64.add'', tokenF64Add),
  (''f64.sub'', tokenF64Sub),
  (''f64.mul'', tokenF64Mul),
  (''f64.div'', tokenF64Div),
  (''f64.min'', tokenF64Min),
  (''f64.max'', tokenF64Max),
  (''f64.copysign'', tokenF64Copysign),
  (''i32.eqz'', tokenI32Eqz),
  (''i64.eqz'', tokenI64Eqz),
  (''i32.eq'', tokenI32Eq),
  (''i32.ne'', tokenI32Ne),
  (''i32.lt_u'', tokenI32LtU),
  (''i32.lt_s'', tokenI32LtS),
  (''i32.le_u'', tokenI32LeU),
  (''i32.le_s'', tokenI32LeS),
  (''i32.gt_u'', tokenI32GtU),
  (''i32.gt_s'', tokenI32GtS),
  (''i32.ge_u'', tokenI32GeU),
  (''i32.ge_s'', tokenI32GeS),
  (''i64.eq'', tokenI64Eq),
  (''i64.ne'', tokenI64Ne),
  (''i64.lt_u'', tokenI64LtU),
  (''i64.lt_s'', tokenI64LtS),
  (''i64.le_u'', tokenI64LeU),
  (''i64.le_s'', tokenI64LeS),
  (''i64.gt_u'', tokenI64GtU),
  (''i64.gt_s'', tokenI64GtS),
  (''i64.ge_u'', tokenI64GeU),
  (''i64.ge_s'', tokenI64GeS),
  (''f32.eq'', tokenF32Eq),
  (''f32.ne'', tokenF32Ne),
  (''f32.lt'', tokenF32Lt),
  (''f32.le'', tokenF32Le),
  (''f32.gt'', tokenF32Gt),
  (''f32.ge'', tokenF32Ge),
  (''f64.eq'', tokenF64Eq),
  (''f64.ne'', tokenF64Ne),
  (''f64.lt'', tokenF64Lt),
  (''f64.le'', tokenF64Le),
  (''f64.gt'', tokenF64Gt),
  (''f64.ge'', tokenF64Ge),
  (''i32.wrap_i64'', tokenI32WrapI64),
  (''i64.extend_i32_s'', tokenI64ExtendI32S),
  (''i64.extend_i32_u'', tokenI64ExtendI32U),
  (''f32.demote_f64'', tokenF32DemoteF64),
  (''f64.promote_f32'', tokenF64PromoteF32),
  (''i32.trunc_f32_u'', tokenI32TruncF32U),
  (''i32.trunc_f32_s'', tokenI32TruncF32S),
  (''i64.trunc_f32_u'', tokenI64TruncF32U),
  (''i64.trunc_f32_s'', tokenI64TruncF32S),
  (''i32.trunc_f64_u'', tokenI32TruncF64U),
  (''i32.trunc_f64_s'', tokenI32TruncF64S),
  (''i64.trunc_f64_u'', tokenI64TruncF64U),
  (''i64.trunc_f64_s'', tokenI64TruncF64S),
  (''i32.trunc_sat_f32_u'', tokenI32TruncSatF32U),
  (''i32.trunc_sat_f32_s'', tokenI32TruncSatF32S),
  (''i64.trunc_sat_f32_u'', tokenI64TruncSatF32U),
  (''i64.trunc_sat_f32_s'', tokenI64TruncSatF32S),
  (''i32.trunc_sat_f64_u'', tokenI32TruncSatF64U),
  (''i32.trunc_sat_f64_s'', tokenI32TruncSatF64S),
  (''i64.trunc_sat_f64_u'', tokenI64TruncSatF64U),
  (''i64.trunc_sat_f64_s'', tokenI64TruncSatF64S),
  (''f32.convert_i32_u'', tokenF32ConvertI32U),
  (''f32.convert_i32_s'', tokenF32ConvertI32S),
  (''f64.convert_i32_u'', tokenF64ConvertI32U),
  (''f64.convert_i32_s'', tokenF64ConvertI32S),
  (''f32.convert_i64_u'', tokenF32ConvertI64U),
  (''f32.convert_i64_s'', tokenF32ConvertI64S),
  (''f64.convert_i64_u'', tokenF64ConvertI64U),
  (''f64.convert_i64_s'', tokenF64ConvertI64S),
  (''f32.reinterpret_i32'', tokenF32ReinterpretI32),
  (''f64.reinterpret_i64'', tokenF64ReinterpretI64),
  (''i32.reinterpret_f32'', tokenI32ReinterpretF32),
  (''i64.reinterpret_f64'', tokenI64ReinterpretF64),
  (''v128.not'', tokenV128Not),
  (''v128.and'', tokenV128And),
  (''v128.andnot'', tokenV128Andnot),
  (''v128.or'', tokenV128Or),
  (''v128.xor'', tokenV128Xor),
  (''v128.bitselect'', tokenV128Bitselect),
  (''v128.any_true'', tokenV128AnyTrue),
  (''i8x16.neg'', tokenI8x16Neg),
  (''i16x8.neg'', tokenI16x8Neg),
  (''i32x4.neg'', tokenI32x4Neg),
  (''i64x2.neg'', tokenI64x2Neg),
  (''i8x16.abs'', tokenI8x16Abs),
  (''i16x8.abs'', tokenI16x8Abs),
  (''i32x4.abs'', tokenI32x4Abs),
  (''i64x2.abs'', tokenI64x2Abs),
  (''i8x16.popcnt'', tokenI8x16Popcnt),
  (''i8x16.avgr_u'', tokenI8x16AvgrU),
  (''i16x8.avgr_u'', tokenI16x8AvgrU),
  (''f32x4.neg'', tokenF32x4Neg),
  (''f64x2.neg'', tokenF64x2Neg),
  (''f32x4.abs'', tokenF32x4Abs),
  (''f64x2.abs'', tokenF64x2Abs),
  (''f32x4.sqrt'', tokenF32x4Sqrt),
  (''f64x2.sqrt'', tokenF64x2Sqrt),
  (''f32x4.ceil'', tokenF32x4Ceil),
  (''f64x2.ceil'', tokenF64x2Ceil),
  (''f32x4.floor'', tokenF32x4Floor),
  (''f64x2.floor'', tokenF64x2Floor),
  (''f32x4.trunc'', tokenF32x4Trunc),
  (''f64x2.trunc'', tokenF64x2Trunc),
  (''f32x4.nearest'', tokenF32x4Nearest),
  (''f64x2.nearest'', tokenF64x2Nearest),
  (''i32x4.trunc_sat_f32x4_u'', tokenI32x4TruncSatF32x4U),
  (''i32x4.trunc_sat_f32x4_s'', tokenI32x4TruncSatF32x4S),
  (''i32x4.trunc_sat_f64x2_u_zero'', tokenI32x4TruncSatF64x2UZero),
  (''i32x4.trunc_sat_f64x2_s_zero'', tokenI32x4TruncSatF64x2SZero),
  (''f64x2.promote_low_f32x4'', tokenF64x2PromoteLowF32x4),
  (''f32x4.demote_f64x2_zero'', tokenF32x4DemoteF64x2Zero),
  (''f32x4.convert_i32x4_u'', tokenF32x4ConvertI32x4U),
  (''f32x4.convert_i32x4_s'', tokenF32x4ConvertI32x4S),
  (''f64x2.convert_low_i32x4_u'', tokenF64x2ConvertLowI32x4U),
  (''f64x2.convert_low_i32x4_s'', tokenF64x2ConvertLowI32x4S),
  (''i16x8.extadd_pairwise_i8x16_u'', tokenI16x8ExtaddPairwiseI8x16U),
  (''i16x8.extadd_pairwise_i8x16_s'', tokenI16x8ExtaddPairwiseI8x16S),
  (''i32x4.extadd_pairwise_i16x8_u'', tokenI32x4ExtaddPairwiseI16x8U),
  (''i32x4.extadd_pairwise_i16x8_s'', tokenI32x4ExtaddPairwiseI16x8S),
  (''i8x16.eq'', tokenI8x16Eq),
  (''i16x8.eq'', tokenI16x8Eq),
  (''i32x4.eq'', tokenI32x4Eq),
  (''i64x2.eq'', tokenI64x2Eq),
  (''i8x16.ne'', tokenI8x16Ne),
  (''i16x8.ne'', tokenI16x8Ne),
  (''i32x4.ne'', tokenI32x4Ne),
  (''i64x2.ne'', tokenI64x2Ne),
  (''i8x16.lt_u'', tokenI8x16LtU),
  (''i8x16.lt_s'', tokenI8x16LtS),
  (''i16x8.lt_u'', tokenI16x8LtU),
  (''i16x8.lt_s'', tokenI16x8LtS),
  (''i32x4.lt_u'', tokenI32x4LtU),
  (''i32x4.lt_s'', tokenI32x4LtS),
  (''i64x2.lt_s'', tokenI64x2LtS),
  (''i8x16.le_u'', tokenI8x16LeU),
  (''i8x16.le_s'', tokenI8x16LeS),
  (''i16x8.le_u'', tokenI16x8LeU),
  (''i16x8.le_s'', tokenI16x8LeS),
  (''i32x4.le_u'', tokenI32x4LeU),
  (''i32x4.le_s'', tokenI32x4LeS),
  (''i64x2.le_s'', tokenI64x2LeS),
  (''i8x16.gt_u'', tokenI8x16GtU),
  (''i8x16.gt_s'', tokenI8x16GtS),
  (''i16x8.gt_u'', tokenI16x8GtU),
  (''i16x8.gt_s'', tokenI16x8GtS),
  (''i32x4.gt_u'', tokenI32x4GtU),
  (''i32x4.gt_s'', tokenI32x4GtS),
  (''i64x2.gt_s'', tokenI64x2GtS),
  (''i8x16.ge_u'', tokenI8x16GeU),
  (''i8x16.ge_s'', tokenI8x16GeS),
  (''i16x8.ge_u'', tokenI16x8GeU),
  (''i16x8.ge_s'', tokenI16x8GeS),
  (''i32x4.ge_u'', tokenI32x4GeU),
  (''i32x4.ge_s'', tokenI32x4GeS),
  (''i64x2.ge_s'', tokenI64x2GeS),
  (''f32x4.eq'', tokenF32x4Eq),
  (''f64x2.eq'', tokenF64x2Eq),
  (''f32x4.ne'', tokenF32x4Ne),
  (''f64x2.ne'', tokenF64x2Ne),
  (''f32x4.lt'', tokenF32x4Lt),
  (''f64x2.lt'', tokenF64x2Lt),
  (''f32x4.le'', tokenF32x4Le),
  (''f64x2.le'', tokenF64x2Le),
  (''f32x4.gt'', tokenF32x4Gt),
  (''f64x2.gt'', tokenF64x2Gt),
  (''f32x4.ge'', tokenF32x4Ge),
  (''f64x2.ge'', tokenF64x2Ge),
  (''i8x16.swizzle'', tokenI8x16Swizzle),
  (''i8x16.add'', tokenI8x16Add),
  (''i16x8.add'', tokenI16x8Add),
  (''i32x4.add'', tokenI32x4Add),
  (''i64x2.add'', tokenI64x2Add),
  (''i8x16.sub'', tokenI8x16Sub),
  (''i16x8.sub'', tokenI16x8Sub),
  (''i32x4.sub'', tokenI32x4Sub),
  (''i64x2.sub'', tokenI64x2Sub),
  (''i16x8.mul'', tokenI16x8Mul),
  (''i32x4.mul'', tokenI32x4Mul),
  (''i64x2.mul'', tokenI64x2Mul),
  (''i8x16.add_sat_u'', tokenI8x16AddSatU),
  (''i8x16.add_sat_s'', tokenI8x16AddSatS),
  (''i16x8.add_sat_u'', tokenI16x8AddSatU),
  (''i16x8.add_sat_s'', tokenI16x8AddSatS),
  (''i8x16.sub_sat_u'', tokenI8x16SubSatU),
  (''i8x16.sub_sat_s'', tokenI8x16SubSatS),
  (''i16x8.sub_sat_u'', tokenI16x8SubSatU),
  (''i16x8.sub_sat_s'', tokenI16x8SubSatS),
  (''i32x4.dot_i16x8_s'', tokenI32x4DotI16x8S),
  (''i8x16.min_u'', tokenI8x16MinU),
  (''i16x8.min_u'', tokenI16x8MinU),
  (''i32x4.min_u'', tokenI32x4MinU),
  (''i8x16.min_s'', tokenI8x16MinS),
  (''i16x8.min_s'', tokenI16x8MinS),
  (''i32x4.min_s'', tokenI32x4MinS),
  (''i8x16.max_u'', tokenI8x16MaxU),
  (''i16x8.max_u'', tokenI16x8MaxU),
  (''i32x4.max_u'', tokenI32x4MaxU),
  (''i8x16.max_s'', tokenI8x16MaxS),
  (''i16x8.max_s'', tokenI16x8MaxS),
  (''i32x4.max_s'', tokenI32x4MaxS),
  (''f32x4.add'', tokenF32x4Add),
  (''f64x2.add'', tokenF64x2Add),
  (''f32x4.sub'', tokenF32x4Sub),
  (''f64x2.sub'', tokenF64x2Sub),
  (''f32x4.mul'', tokenF32x4Mul),
  (''f64x2.mul'', tokenF64x2Mul),
  (''f32x4.div'', tokenF32x4Div),
  (''f64x2.div'', tokenF64x2Div),
  (''f32x4.min'', tokenF32x4Min),
  (''f64x2.min'', tokenF64x2Min),
  (''f32x4.max'', tokenF32x4Max),
  (''f64x2.max'', tokenF64x2Max),
  (''f32x4.pmin'', tokenF32x4Pmin),
  (''f64x2.pmin'', tokenF64x2Pmin),
  (''f32x4.pmax'', tokenF32x4Pmax),
  (''f64x2.pmax'', tokenF64x2Pmax),
  (''i16x8.q15mulr_sat_s'', tokenI16x8Q15mulrSatS),
  (''i8x16.narrow_i16x8_u'', tokenI8x16NarrowI16x8U),
  (''i8x16.narrow_i16x8_s'', tokenI8x16NarrowI16x8S),
  (''i16x8.narrow_i32x4_u'', tokenI16x8NarrowI32x4U),
  (''i16x8.narrow_i32x4_s'', tokenI16x8NarrowI32x4S),
  (''i16x8.extend_low_i8x16_u'', tokenI16x8ExtendLowI8x16U),
  (''i16x8.extend_low_i8x16_s'', tokenI16x8ExtendLowI8x16S),
  (''i16x8.extend_high_i8x16_u'', tokenI16x8ExtendHighI8x16U),
  (''i16x8.extend_high_i8x16_s'', tokenI16x8ExtendHighI8x16S),
  (''i32x4.extend_low_i16x8_u'', tokenI32x4ExtendLowI16x8U),
  (''i32x4.extend_low_i16x8_s'', tokenI32x4ExtendLowI16x8S),
  (''i32x4.extend_high_i16x8_u'', tokenI32x4ExtendHighI16x8U),
  (''i32x4.extend_high_i16x8_s'', tokenI32x4ExtendHighI16x8S),
  (''i64x2.extend_low_i32x4_u'', tokenI64x2ExtendLowI32x4U),
  (''i64x2.extend_low_i32x4_s'', tokenI64x2ExtendLowI32x4S),
  (''i64x2.extend_high_i32x4_u'', tokenI64x2ExtendHighI32x4U),
  (''i64x2.extend_high_i32x4_s'', tokenI64x2ExtendHighI32x4S),
  (''i16x8.extmul_low_i8x16_u'', tokenI16x8ExtmulLowI8x16U),
  (''i16x8.extmul_low_i8x16_s'', tokenI16x8ExtmulLowI8x16S),
  (''i16x8.extmul_high_i8x16_u'', tokenI16x8ExtmulHighI8x16U),
  (''i16x8.extmul_high_i8x16_s'', tokenI16x8ExtmulHighI8x16S),
  (''i32x4.extmul_low_i16x8_u'', tokenI32x4ExtmulLowI16x8U),
  (''i32x4.extmul_low_i16x8_s'', tokenI32x4ExtmulLowI16x8S),
  (''i32x4.extmul_high_i16x8_u'', tokenI32x4ExtmulHighI16x8U),
  (''i32x4.extmul_high_i16x8_s'', tokenI32x4ExtmulHighI16x8S),
  (''i64x2.extmul_low_i32x4_u'', tokenI64x2ExtmulLowI32x4U),
  (''i64x2.extmul_low_i32x4_s'', tokenI64x2ExtmulLowI32x4S),
  (''i64x2.extmul_high_i32x4_u'', tokenI64x2ExtmulHighI32x4U),
  (''i64x2.extmul_high_i32x4_s'', tokenI64x2ExtmulHighI32x4S),
  (''i8x16.all_true'', tokenI8x16AllTrue),
  (''i16x8.all_true'', tokenI16x8AllTrue),
  (''i32x4.all_true'', tokenI32x4AllTrue),
  (''i64x2.all_true'', tokenI64x2AllTrue),
  (''i8x16.bitmask'', tokenI8x16Bitmask),
  (''i16x8.bitmask'', tokenI16x8Bitmask),
  (''i32x4.bitmask'', tokenI32x4Bitmask),
  (''i64x2.bitmask'', tokenI64x2Bitmask),
  (''i8x16.shl'', tokenI8x16Shl),
  (''i16x8.shl'', tokenI16x8Shl),
  (''i32x4.shl'', tokenI32x4Shl),
  (''i64x2.shl'', tokenI64x2Shl),
  (''i8x16.shr_u'', tokenI8x16ShrU),
  (''i8x16.shr_s'', tokenI8x16ShrS),
  (''i16x8.shr_u'', tokenI16x8ShrU),
  (''i16x8.shr_s'', tokenI16x8ShrS),
  (''i32x4.shr_u'', tokenI32x4ShrU),
  (''i32x4.shr_s'', tokenI32x4ShrS),
  (''i64x2.shr_u'', tokenI64x2ShrU),
  (''i64x2.shr_s'', tokenI64x2ShrS),
  (''i8x16.shuffle'', tokenI8x16Shuffle),
  (''i8x16.splat'', tokenI8x16Splat),
  (''i16x8.splat'', tokenI16x8Splat),
  (''i32x4.splat'', tokenI32x4Splat),
  (''i64x2.splat'', tokenI64x2Splat),
  (''f32x4.splat'', tokenF32x4Splat),
  (''f64x2.splat'', tokenF64x2Splat),
  (''i8x16.extract_lane_u'', tokenI8x16ExtractLaneU),
  (''i8x16.extract_lane_s'', tokenI8x16ExtractLaneS),
  (''i16x8.extract_lane_u'', tokenI16x8ExtractLaneU),
  (''i16x8.extract_lane_s'', tokenI16x8ExtractLaneS),
  (''i32x4.extract_lane'', tokenI32x4ExtractLane),
  (''i64x2.extract_lane'', tokenI64x2ExtractLane),
  (''f32x4.extract_lane'', tokenF32x4ExtractLane),
  (''f64x2.extract_lane'', tokenF64x2ExtractLane),
  (''i8x16.replace_lane'', tokenI8x16ReplaceLane),
  (''i16x8.replace_lane'', tokenI16x8ReplaceLane),
  (''i32x4.replace_lane'', tokenI32x4ReplaceLane),
  (''i64x2.replace_lane'', tokenI64x2ReplaceLane),
  (''f32x4.replace_lane'', tokenF32x4ReplaceLane),
  (''f64x2.replace_lane'', tokenF64x2ReplaceLane)
  ]"

definition key :: "string \<Rightarrow> tokenKind option" where
  "key = map_of key_table"

subsection \<open>Tokens and the lexer state\<close>

text \<open>
  A token carries its kind and its bytes. The bytes of an error token are a diagnostic
  built by \<open>fmt.Sprintf\<close>; the model keeps the format string and the arguments as they
  are passed, unformatted (\<open>Message\<close>).
\<close>

datatype fmt_arg = ArgRune rune | ArgBytes string

datatype payload = Bytes string | Message string "fmt_arg list"

record token =
  kind :: tokenKind
  val :: payload

datatype stateFn =
  LexDefault | LexBlockComment | LexNumber | LexKeyword | LexComment | LexIdentifier | LexString

text \<open>
  The channel \<open>tokens\<close> (capacity 3) is the list of the tokens sent and not yet received,
  with a flag for \<open>close\<close>. A state function sends at most one token per call and
  \<open>nextToken\<close> receives before it runs a state function, so a send never blocks.
\<close>

record lexer =
  input :: string
  pos :: nat
  start :: nat
  width :: nat
  state :: "stateFn option"
  tokens :: "token list"
  closed :: bool

definition NewLexer :: "string \<Rightarrow> lexer" where
  "NewLexer inp =
     \<lparr>input = inp, pos = 0, start = 0, width = 0, state = Some LexDefault, tokens = [],
      closed = False\<rparr>"

subsection \<open>The library functions the scanner calls\<close>

definition RuneError :: rune where "RuneError = 0xFFFD"

text \<open>
  \<open>utf8.DecodeRune\<close>: the first rune of a byte string and its width in bytes; an empty
  string gives \<open>(RuneError, 0)\<close>, an invalid or short encoding gives \<open>(RuneError, 1)\<close>.
  The masks of the library are written as remainders and the shifts as products.
\<close>

fun DecodeRune :: "string \<Rightarrow> rune \<times> nat" where
  "DecodeRune [] = (RuneError, 0)"
| "DecodeRune (c0 # p) =
     (let p0 = (of_char c0 :: nat) in
      if p0 < 0x80 then (p0, 1)
      else if p0 < 0xC2 \<or> 0xF4 < p0 then (RuneError, 1)
      else
        (let sz = (if p0 < 0xE0 then 2 else if p0 < 0xF0 then 3 else (4::nat));
             lo = (if p0 = 0xE0 then 0xA0 else if p0 = 0xF0 then 0x90 else (0x80::nat));
             hi = (if p0 = 0xED then 0x9F else if p0 = 0xF4 then 0x8F else (0xBF::nat))
         in
         if length p + 1 < sz then (RuneError, 1)
         else
           (let b1 = (of_char (p ! 0) :: nat) in
            if b1 < lo \<or> hi < b1 then (RuneError, 1)
            else if sz \<le> 2 then ((p0 mod 32) * 64 + b1 mod 64, 2)
            else
              (let b2 = (of_char (p ! 1) :: nat) in
               if b2 < 0x80 \<or> 0xBF < b2 then (RuneError, 1)
               else if sz \<le> 3 then ((p0 mod 16) * 4096 + (b1 mod 64) * 64 + b2 mod 64, 3)
               else
                 (let b3 = (of_char (p ! 2) :: nat) in
                  if b3 < 0x80 \<or> 0xBF < b3 then (RuneError, 1)
                  else ((p0 mod 8) * 262144 + (b1 mod 64) * 4096 + (b2 mod 64) * 64
                        + b3 mod 64, 4))))))"

text \<open>
  The conversion \<open>string(rune(v))\<close> and \<open>strings.Builder.WriteRune\<close>: the UTF-8 encoding
  of a code point; a surrogate or a value above 0x10FFFF is encoded as U+FFFD.
\<close>

definition EncodeRune :: "rune \<Rightarrow> string" where
  "EncodeRune r =
     (if r < 0x80 then [char_of r]
      else if r < 0x800 then [char_of (0xC0 + r div 64), char_of (0x80 + r mod 64)]
      else if (0xD800 \<le> r \<and> r \<le> 0xDFFF) \<or> 0x10FFFF < r then
        [CHR 0xEF, CHR 0xBF, CHR 0xBD]
      else if r < 0x10000 then
        [char_of (0xE0 + r div 4096), char_of (0x80 + (r div 64) mod 64),
         char_of (0x80 + r mod 64)]
      else
        [char_of (0xF0 + r div 262144), char_of (0x80 + (r div 4096) mod 64),
         char_of (0x80 + (r div 64) mod 64), char_of (0x80 + r mod 64)])"

text \<open>
  \<open>strings.IndexRune\<close>, for the ASCII strings the scanner passes as \<open>valid\<close>: a rune
  below 0x80 is searched as a byte; any other rune (U+FFFD included) does not occur in an
  ASCII string.
\<close>

fun IndexByte :: "string \<Rightarrow> nat \<Rightarrow> int" where
  "IndexByte [] b = - 1"
| "IndexByte (c # s) b =
     (if of_char c = b then 0
      else (let i = IndexByte s b in if i < 0 then - 1 else i + 1))"

definition IndexRune :: "string \<Rightarrow> rune \<Rightarrow> int" where
  "IndexRune s r = (if r < 0x80 then IndexByte s r else - 1)"

text \<open>
  \<open>strconv.ParseUint(s, 16, 16)\<close>: the value (a \<open>uint64\<close>) and the error. On a syntax
  error the value is 0, on a range error it is the largest 16-bit value. \<open>cutoff\<close> is
  \<open>maxUint64/16 + 1\<close> and \<open>maxVal\<close> is \<open>1<<16 - 1\<close>.
\<close>

datatype num_error = ErrSyntax | ErrRange

definition hex_digit_val :: "nat \<Rightarrow> nat option" where
  "hex_digit_val c =
     (if 0x30 \<le> c \<and> c \<le> 0x39 then Some (c - 0x30)
      else if 0x61 \<le> c \<and> c \<le> 0x7A then Some (c - 0x61 + 10)
      else if 0x41 \<le> c \<and> c \<le> 0x5A then Some (c - 0x41 + 10)
      else None)"

fun ParseUint_loop :: "string \<Rightarrow> 64 word \<Rightarrow> 64 word \<times> num_error option" where
  "ParseUint_loop [] n = (n, None)"
| "ParseUint_loop (c # s) n =
     (case hex_digit_val (of_char c) of
        None \<Rightarrow> (0, Some ErrSyntax)
      | Some d \<Rightarrow>
          if 16 \<le> d then (0, Some ErrSyntax)
          else if 0x1000000000000000 \<le> n then (0xFFFF, Some ErrRange)
          else
            (let n1 = n * 16 + of_nat d in
             if n1 < n * 16 \<or> 0xFFFF < n1 then (0xFFFF, Some ErrRange)
             else ParseUint_loop s n1))"

definition ParseUint_16_16 :: "string \<Rightarrow> 64 word \<times> num_error option" where
  "ParseUint_16_16 s = (if s = [] then (0, Some ErrSyntax) else ParseUint_loop s 0)"

subsection \<open>The methods of the lexer\<close>

text \<open>
  The method \<open>next\<close> is named \<open>lexer_next\<close> here, and the slice expression
  \<open>input[i:j]\<close> is written \<open>subslice input i j\<close>. Every \<open>backup\<close> of the source directly
  follows a \<open>next\<close>, so \<open>pos - width\<close> never goes below zero.
\<close>

definition subslice :: "string \<Rightarrow> nat \<Rightarrow> nat \<Rightarrow> string" where
  "subslice xs i j = take (j - i) (drop i xs)"

definition lexer_next :: "lexer \<Rightarrow> rune \<times> lexer" where
  "lexer_next l =
     (if length (input l) \<le> pos l then (eof, l\<lparr>width := 0\<rparr>)
      else (case DecodeRune (drop (pos l) (input l)) of
              (r, w) \<Rightarrow> (r, l\<lparr>width := w, pos := pos l + w\<rparr>)))"

definition ignore :: "lexer \<Rightarrow> lexer" where
  "ignore l = l\<lparr>start := pos l\<rparr>"

definition backup :: "lexer \<Rightarrow> lexer" where
  "backup l = l\<lparr>pos := pos l - width l\<rparr>"

definition peek :: "lexer \<Rightarrow> rune \<times> lexer" where
  "peek l = (case lexer_next l of (r, l1) \<Rightarrow> (r, (backup l1)\<lparr>width := width l\<rparr>))"

definition lexeme :: "lexer \<Rightarrow> string" where
  "lexeme l = subslice (input l) (start l) (pos l)"

definition emit :: "tokenKind \<Rightarrow> lexer \<Rightarrow> lexer" where
  "emit k l =
     l\<lparr>tokens := tokens l @ [\<lparr>kind = k, val = Bytes (subslice (input l) (start l) (pos l))\<rparr>],
       start := pos l\<rparr>"

definition emitWithData :: "tokenKind \<Rightarrow> string \<Rightarrow> lexer \<Rightarrow> lexer" where
  "emitWithData k data l =
     l\<lparr>tokens := tokens l @ [\<lparr>kind = k, val = Bytes data\<rparr>], start := pos l\<rparr>"

definition accept :: "string \<Rightarrow> lexer \<Rightarrow> bool \<times> lexer" where
  "accept valid l =
     (case lexer_next l of (r, l1) \<Rightarrow>
        if 0 \<le> IndexRune valid r then (True, l1) else (False, backup l1))"

partial_function (option) acceptRun_loop :: "string \<Rightarrow> lexer \<Rightarrow> int \<Rightarrow> (int \<times> lexer) option"
where
  "acceptRun_loop valid l count =
     (case lexer_next l of (r, l1) \<Rightarrow>
        if 0 \<le> IndexRune valid r then acceptRun_loop valid l1 (count + 1)
        else Some (count, backup l1))"

declare acceptRun_loop.simps [code]

definition acceptRun :: "string \<Rightarrow> lexer \<Rightarrow> (int \<times> lexer) option" where
  "acceptRun valid l = acceptRun_loop valid l 0"

definition errorf :: "string \<Rightarrow> fmt_arg list \<Rightarrow> lexer \<Rightarrow> stateFn option \<times> lexer" where
  "errorf format args l =
     (None, l\<lparr>tokens := tokens l @ [\<lparr>kind = tokenError, val = Message format args\<rparr>]\<rparr>)"

subsection \<open>The state functions\<close>

definition isLowercaseLetter :: "rune \<Rightarrow> bool" where
  "isLowercaseLetter r = (rune CHR ''a'' \<le> r \<and> r \<le> rune CHR ''z'')"

definition isHexDigit :: "rune \<Rightarrow> bool" where
  "isHexDigit r = (0 \<le> IndexRune hexDigit r)"

definition isSpace :: "rune \<Rightarrow> bool" where
  "isSpace r = (r = rune CHR '' '' \<or> r = rune newline \<or> r = rune tab \<or> r = rune creturn)"

partial_function (option) lexDefault :: "lexer \<Rightarrow> (stateFn option \<times> lexer) option" where
  "lexDefault l0 =
     (case lexer_next l0 of (r, l) \<Rightarrow>
        if r = eof then Some (None, emit tokenEOF l)
        else if isSpace r then lexDefault (ignore l)
        else if r = rune CHR '';'' then Some (Some LexComment, l)
        else if r = rune CHR ''+'' \<or> r = rune CHR ''-''
                \<or> (rune CHR ''0'' \<le> r \<and> r \<le> rune CHR ''9'') then
          Some (Some LexNumber, backup l)
        else if r = rune CHR ''$'' then Some (Some LexIdentifier, backup l)
        else if r = rune dquote then Some (Some LexString, l)
        else if r = rune CHR ''('' then
          (case peek l of (r1, l1) \<Rightarrow>
             if r1 = rune CHR '';'' then Some (Some LexBlockComment, l1)
             else Some (Some LexDefault, emit tokenLParen l1))
        else if r = rune CHR '')'' then Some (Some LexDefault, emit tokenRParen l)
        else if isLowercaseLetter r then Some (Some LexKeyword, backup l)
        else Some (errorf ''unknown token: %q'' [ArgRune r] l))"

declare lexDefault.simps [code]

partial_function (option) lexBlockComment_loop :: "lexer \<Rightarrow> int \<Rightarrow> lexer option" where
  "lexBlockComment_loop l0 level =
     (if 0 < level then
        (case lexer_next l0 of (r, l) \<Rightarrow>
           if r = rune CHR ''('' then
             (case peek l of (r1, l1) \<Rightarrow>
                lexBlockComment_loop l1 (if r1 = rune CHR '';'' then level + 1 else level))
           else if r = rune CHR '';'' then
             (case peek l of (r1, l1) \<Rightarrow>
                lexBlockComment_loop l1 (if r1 = rune CHR '')'' then level - 1 else level))
           else lexBlockComment_loop l level)
      else Some l0)"

declare lexBlockComment_loop.simps [code]

definition lexBlockComment :: "lexer \<Rightarrow> (stateFn option \<times> lexer) option" where
  "lexBlockComment l0 =
     (case accept '';'' l0 of (_, l) \<Rightarrow>
        map_option (\<lambda>l'. (Some LexDefault, l')) (lexBlockComment_loop l 1))"

definition lexNumber :: "lexer \<Rightarrow> (stateFn option \<times> lexer) option" where
  "lexNumber l0 =
     (case accept sign l0 of (_, l1) \<Rightarrow>
      case accept ''0'' l1 of (a0, l2) \<Rightarrow>
      case (if a0 then accept ''xX'' l2 else (False, l2)) of (ax, l3) \<Rightarrow>
      let valid = (if a0 \<and> ax then hexDigit else digit) @ ''_'' in
      do {
        (_, l4) \<leftarrow> acceptRun valid l3;
        (adot, l5) \<leftarrow> Some (accept ''.'' l4);
        (_, l6) \<leftarrow> (if adot then acceptRun valid l5 else Some (0, l5));
        (aexp, l7) \<leftarrow> Some (accept ''eEpP'' l6);
        (_, l8) \<leftarrow> (if aexp then acceptRun (digit @ ''_'') (snd (accept sign l7))
                    else Some (0, l7));
        Some (Some LexDefault, emit tokenNumber l8)
      })"

definition lexKeyword :: "lexer \<Rightarrow> (stateFn option \<times> lexer) option" where
  "lexKeyword l0 =
     do {
       (_, l) \<leftarrow> acceptRun keyword l0;
       (case key (lexeme l) of
          Some k \<Rightarrow> Some (Some LexDefault, emit k l)
        | None \<Rightarrow> Some (Some LexDefault, emit tokenKeyword l))
     }"

partial_function (option) lexComment_loop :: "lexer \<Rightarrow> lexer option" where
  "lexComment_loop l0 =
     (case lexer_next l0 of (r, l) \<Rightarrow>
        if r = eof \<or> r = rune newline then Some l else lexComment_loop l)"

declare lexComment_loop.simps [code]

definition lexComment :: "lexer \<Rightarrow> (stateFn option \<times> lexer) option" where
  "lexComment l0 =
     (case accept '';'' l0 of (ok, l) \<Rightarrow>
        if \<not> ok then
          (case lexer_next l of (r, l1) \<Rightarrow>
             Some (errorf ''expected ';' but got: %q'' [ArgRune r] l1))
        else map_option (\<lambda>l'. (Some LexDefault, l')) (lexComment_loop l))"

definition lexIdentifier :: "lexer \<Rightarrow> (stateFn option \<times> lexer) option" where
  "lexIdentifier l0 =
     do {
       (n, l) \<leftarrow> acceptRun idChar l0;
       (if n < 2 then Some (errorf ''empty identifier'' [] l)
        else Some (Some LexDefault, emit tokenIdent l))
     }"

datatype escape_error =
  InvalidEscape rune rune | InvalidUnicode | UnterminatedUnicode | InvalidHexDigit rune
  | UnexpectedEscape rune

function unicode_loop :: "lexer \<Rightarrow> string \<Rightarrow> nat \<Rightarrow> (escape_error + string) \<times> lexer" where
  "unicode_loop l0 s i =
     (if i < 7 then
        (case lexer_next l0 of (d, l) \<Rightarrow>
           if d = rune CHR ''}'' then (Inr s, backup l)
           else if d = eof then (Inl UnterminatedUnicode, l)
           else if \<not> isHexDigit d then (Inl (InvalidHexDigit d), l)
           else unicode_loop l (s @ EncodeRune d) (i + 1))
      else (Inr s, l0))"
  by pat_completeness auto
termination
  by (relation "measure (\<lambda>(l, s, i). 7 - i)") auto

declare unicode_loop.simps [simp del]

definition escapeSeq :: "lexer \<Rightarrow> (escape_error + string) \<times> lexer" where
  "escapeSeq l0 =
     (case lexer_next l0 of (r, l) \<Rightarrow>
        if r = rune CHR ''t'' then (Inr [tab], l)
        else if r = rune CHR ''r'' then (Inr [creturn], l)
        else if r = rune dquote then (Inr [dquote], l)
        else if r = rune squote then (Inr [squote], l)
        else if r = rune backslash then (Inr [backslash], l)
        else if isHexDigit r then
          (case lexer_next l of (r2, l2) \<Rightarrow>
             if r2 \<noteq> eof \<and> isHexDigit r2 then
               (Inr (EncodeRune (unat (fst (ParseUint_16_16 (EncodeRune r @ EncodeRune r2))))), l2)
             else (Inl (InvalidEscape r r2), l2))
        else if r = rune CHR ''u'' then
          (case accept ''{'' l of (ok, l1) \<Rightarrow>
             if \<not> ok then (Inl InvalidUnicode, l1)
             else
               (case unicode_loop l1 [] 0 of
                  (Inl e, l2) \<Rightarrow> (Inl e, l2)
                | (Inr s, l2) \<Rightarrow>
                    (let v = unat (fst (ParseUint_16_16 s)) in
                     case accept ''}'' l2 of (ok2, l3) \<Rightarrow>
                       if \<not> ok2 then (Inl InvalidUnicode, l3)
                       else (Inr (EncodeRune v), l3))))
        else (Inl (UnexpectedEscape r), l))"

partial_function (option) lexString_loop :: "lexer \<Rightarrow> string \<Rightarrow> (stateFn option \<times> lexer) option"
where
  "lexString_loop l0 s =
     (case lexer_next l0 of (r, l) \<Rightarrow>
        if r = rune backslash then
          (case escapeSeq l of
             (Inl e, l1) \<Rightarrow>
               Some (errorf ''invalid escape sequence: %q''
                       [ArgBytes (subslice (input l1) (start l1) (pos l1))] l1)
           | (Inr s1, l1) \<Rightarrow> lexString_loop l1 (s @ s1))
        else if r = rune dquote then Some (Some LexDefault, emitWithData tokenString s l)
        else if r = eof \<or> r = rune newline \<or> r = rune creturn then
          Some (errorf ''unclosed quote: %q'' [ArgBytes (subslice (input l) (start l) (pos l))] l)
        else lexString_loop l (s @ EncodeRune r))"

declare lexString_loop.simps [code]

definition lexString :: "lexer \<Rightarrow> (stateFn option \<times> lexer) option" where
  "lexString l = lexString_loop l []"

fun run :: "stateFn \<Rightarrow> lexer \<Rightarrow> (stateFn option \<times> lexer) option" where
  "run LexDefault l = lexDefault l"
| "run LexBlockComment l = lexBlockComment l"
| "run LexNumber l = lexNumber l"
| "run LexKeyword l = lexKeyword l"
| "run LexComment l = lexComment l"
| "run LexIdentifier l = lexIdentifier l"
| "run LexString l = lexString l"

partial_function (option) nextToken :: "lexer \<Rightarrow> (token \<times> lexer) option" where
  "nextToken l =
     (case tokens l of
        t # ts \<Rightarrow> Some (t, l\<lparr>tokens := ts\<rparr>)
      | [] \<Rightarrow>
          if closed l then Some (\<lparr>kind = 0, val = Bytes []\<rparr>, l)
          else
            (case state l of
               None \<Rightarrow> Some (\<lparr>kind = tokenEOF, val = Bytes []\<rparr>, l\<lparr>closed := True\<rparr>)
             | Some f \<Rightarrow>
                 (case run f l of
                    None \<Rightarrow> None
                  | Some (st, l1) \<Rightarrow> nextToken (l1\<lparr>state := st\<rparr>))))"

declare nextToken.simps [code]


text \<open>
  The token stream of a lexer: the tokens that successive calls of \<open>nextToken\<close> return,
  up to and including the first end-of-input or error token (where the parser stops
  asking).
\<close>

partial_function (option) lexAll :: "lexer \<Rightarrow> token list option" where
  "lexAll l =
     (case nextToken l of
        None \<Rightarrow> None
      | Some (t, l1) \<Rightarrow>
          if kind t = tokenEOF \<or> kind t = tokenError then Some [t]
          else Option.bind (lexAll l1) (\<lambda>ts. Some (t # ts)))"

declare lexAll.simps [code]

section \<open>The parser (package text)\<close>

datatype Op = OpUnkown | OpStart | OpConst | OpLocalGet | OpLocalSet | OpCall | OpI32Add

datatype Node = Node (ID: "64 word") (Op: Op) (Args: "Node option list") (Meta: string)

text \<open>
  \<open>idCounter\<close> is a variable of the package; the model passes it in and returns it.
  \<open>newID\<close> returns the new identifier and the new value of the counter.
\<close>

definition newID :: "64 word \<Rightarrow> 64 word \<times> 64 word" where
  "newID idCounter = (idCounter + 1, idCounter + 1)"

definition NewNode :: "64 word \<Rightarrow> Op \<Rightarrow> string \<Rightarrow> Node option list \<Rightarrow> Node \<times> 64 word" where
  "NewNode idCounter op meta args =
     (case newID idCounter of (i, c) \<Rightarrow> (Node i op args meta, c))"

text \<open>The field \<open>lex\<close> of the parser is named \<open>plex\<close> here.\<close>

record Parser =
  plex :: lexer
  root :: "Node option"

definition NewParser :: "string \<Rightarrow> Parser" where
  "NewParser inp = \<lparr>plex = NewLexer inp, root = None\<rparr>"

datatype parse_error = LexingError payload

partial_function (option) Parse_loop :: "lexer \<Rightarrow> (parse_error option \<times> lexer) option" where
  "Parse_loop l =
     (case nextToken l of
        None \<Rightarrow> None
      | Some (t, l1) \<Rightarrow>
          if kind t = tokenEOF then Some (None, l1)
          else if kind t = tokenError then Some (Some (LexingError (val t)), l1)
          else Parse_loop l1)"

declare Parse_loop.simps [code]

text \<open>
  \<open>Parse\<close> returns the error (\<open>None\<close> for \<open>nil\<close>), the parser and the counter; the
  result is \<open>None\<close> when the loop does not return. The variadic \<open>args\<close> of \<open>NewNode\<close>
  receives the single argument \<open>nil\<close>.
\<close>

definition Parse :: "Parser \<Rightarrow> 64 word \<Rightarrow> (parse_error option \<times> Parser \<times> 64 word) option" where
  "Parse p idCounter =
     (case NewNode idCounter OpStart [] [None] of (n, c) \<Rightarrow>
        (case Parse_loop (plex (p\<lparr>root := Some n\<rparr>)) of
           None \<Rightarrow> None
         | Some (e, l) \<Rightarrow> Some (e, p\<lparr>root := Some n, plex := l\<rparr>, c)))"

section \<open>Auxiliary notions for the proofs\<close>

text \<open>The kind that \<open>lexKeyword\<close> emits for a lexeme.\<close>

definition keyword_kind :: "string \<Rightarrow> tokenKind" where
  "keyword_kind s = (case key s of Some k \<Rightarrow> k | None \<Rightarrow> tokenKeyword)"

text \<open>No semicolon byte at or after the position of the lexer.\<close>

definition no_semi :: "lexer \<Rightarrow> bool" where
  "no_semi l = (CHR '';'' \<notin> set (drop (pos l) (input l)))"

text \<open>
  The layout of a token stream in the input. \<open>skip_space inp p\<close> is the position of the
  first byte at or after \<open>p\<close> that is not whitespace. A token lies at \<open>p\<close> and ends at \<open>q\<close>
  when its span runs from \<open>skip_space inp p\<close> to \<open>q\<close> and, unless it is a string or an error
  token, its bytes are exactly the bytes of that span. The tokens of a list lie in the
  input from \<open>p\<close> on when each one lies where the one before it ends.
\<close>

definition is_space :: "char \<Rightarrow> bool" where
  "is_space c = isSpace (rune c)"

definition skip_space :: "string \<Rightarrow> nat \<Rightarrow> nat" where
  "skip_space inp p = p + length (takeWhile is_space (drop p inp))"

definition token_at :: "string \<Rightarrow> nat \<Rightarrow> token \<Rightarrow> nat \<Rightarrow> bool" where
  "token_at inp p t q =
     (skip_space inp p \<le> q \<and> q \<le> length inp
      \<and> (if kind t = tokenError then True
         else if kind t = tokenString then skip_space inp p < q
         else val t = Bytes (subslice inp (skip_space inp p) q)))"

fun tokens_at :: "string \<Rightarrow> nat \<Rightarrow> token list \<Rightarrow> bool" where
  "tokens_at inp p [] = True"
| "tokens_at inp p (t # ts) = (\<exists>q. token_at inp p t q \<and> tokens_at inp q ts)"

text \<open>
  A plain byte of a string literal: ASCII, and neither a quote, a backslash, a newline, a
  return nor a zero byte.
\<close>

definition plain :: "char \<Rightarrow> bool" where
  "plain c =
     ((of_char c :: nat) < 0x80 \<and> c \<noteq> dquote \<and> c \<noteq> backslash \<and> c \<noteq> newline
      \<and> c \<noteq> creturn \<and> c \<noteq> CHR 0x00)"

text \<open>
  One operation advances a lexer to another when it changes neither the input, the start
  mark nor the channel, does not move the position back, and keeps it inside the input.
\<close>

definition adv :: "lexer \<Rightarrow> lexer \<Rightarrow> bool" where
  "adv l l1 =
     (input l1 = input l \<and> start l1 = start l \<and> tokens l1 = tokens l \<and> pos l \<le> pos l1
      \<and> (length (input l) < pos l \<or> pos l1 \<le> length (input l)))"

text \<open>
  The state of a lexer between two state functions, on an input without a semicolon, when
  the tokens still to come lie in the input from \<open>p\<close> on: the channel holds at most one
  token, which lies at \<open>p\<close> and ends at the start mark; otherwise the start mark is at the
  position (after the opening quote, for \<open>lexString\<close>), at or before the first byte after
  \<open>p\<close> that is not whitespace.
\<close>

definition scan_inv :: "lexer \<Rightarrow> nat \<Rightarrow> bool" where
  "scan_inv l p =
     (CHR '';'' \<notin> set (input l) \<and> skip_space (input l) p \<le> length (input l)
      \<and> ((tokens l = [] \<and> state l = None)
         \<or> (tokens l = [] \<and> state l = Some LexDefault \<and> start l = pos l
            \<and> skip_space (input l) (pos l) = skip_space (input l) p)
         \<or> (tokens l = []
            \<and> (state l = Some LexNumber \<or> state l = Some LexKeyword
               \<or> state l = Some LexIdentifier)
            \<and> start l = skip_space (input l) p \<and> pos l = start l)
         \<or> (tokens l = [] \<and> state l = Some LexString \<and> start l = skip_space (input l) p
            \<and> pos l = start l + 1 \<and> pos l \<le> length (input l))
         \<or> (\<exists>t. tokens l = [t] \<and> token_at (input l) p t (start l)
              \<and> (state l = None \<or> (state l = Some LexDefault \<and> start l = pos l)))))"

section \<open>Properties of the scanner\<close>

subsection \<open>Decoding and reading one rune\<close>

lemma mod_range:
  fixes x :: nat
  assumes "q * m \<le> x" and "x < q * m + m"
  shows "x mod m = x - q * m"
proof -
  obtain k where k: "x = q * m + k" using assms(1) le_Suc_ex by blast
  with assms(2) have "k < m" by simp
  with k show ?thesis by simp
qed

lemma mod_bounds:
  fixes p0 b1 :: nat
  shows "194 \<le> p0 \<Longrightarrow> p0 < 224 \<Longrightarrow> 2 \<le> p0 mod 32"
    and "224 < p0 \<Longrightarrow> p0 < 240 \<Longrightarrow> 1 \<le> p0 mod 16"
    and "160 \<le> b1 \<Longrightarrow> b1 \<le> 191 \<Longrightarrow> 32 \<le> b1 mod 64"
    and "240 < p0 \<Longrightarrow> p0 \<le> 244 \<Longrightarrow> 1 \<le> p0 mod 8"
    and "144 \<le> b1 \<Longrightarrow> b1 \<le> 191 \<Longrightarrow> 16 \<le> b1 mod 64"
  using mod_range [of 6 32 p0] mod_range [of 14 16 p0] mod_range [of 2 64 b1]
    mod_range [of 30 8 p0]
  by simp_all

lemma DecodeRune_cases:
  fixes c :: char
  obtains (ascii) "(of_char c :: nat) < 0x80"
  | (bad) "0x80 \<le> (of_char c :: nat)" "(of_char c :: nat) < 0xC2 \<or> 0xF4 < (of_char c :: nat)"
  | (two) "0xC2 \<le> (of_char c :: nat)" "(of_char c :: nat) < 0xE0"
  | (e0) "(of_char c :: nat) = 0xE0"
  | (three) "0xE0 < (of_char c :: nat)" "(of_char c :: nat) < 0xF0" "(of_char c :: nat) \<noteq> 0xED"
  | (ed) "(of_char c :: nat) = 0xED"
  | (f0) "(of_char c :: nat) = 0xF0"
  | (four) "0xF0 < (of_char c :: nat)" "(of_char c :: nat) < 0xF4"
  | (f4) "(of_char c :: nat) = 0xF4"
  by linarith

lemma DecodeRune_width: "DecodeRune (c # p) = (r, w) \<Longrightarrow> 1 \<le> w \<and> w \<le> Suc (length p)"
  by (cases c rule: DecodeRune_cases) (auto simp: Let_def Suc_le_eq split: if_splits)

lemma DecodeRune_small:
  assumes "DecodeRune (c # p) = (r, w)" and "r < 0x80"
  shows "r = of_char c"
proof (cases c rule: DecodeRune_cases)
  case ascii
  with assms show ?thesis by simp
next
  case bad
  with assms show ?thesis by (auto simp: RuneError_def)
next
  case two
  with assms mod_bounds(1) [of "of_char c"] show ?thesis
    by (auto simp: Let_def RuneError_def split: if_splits)
next
  case e0
  with assms mod_bounds(3) [of "of_char (p ! 0)"] show ?thesis
    by (auto simp: Let_def RuneError_def split: if_splits)
next
  case three
  with assms mod_bounds(2) [of "of_char c"] show ?thesis
    by (auto simp: Let_def RuneError_def split: if_splits)
next
  case ed
  with assms show ?thesis
    by (auto simp: Let_def RuneError_def split: if_splits)
next
  case f0
  with assms mod_bounds(5) [of "of_char (p ! 0)"] show ?thesis
    by (auto simp: Let_def RuneError_def split: if_splits)
next
  case four
  with assms mod_bounds(4) [of "of_char c"] show ?thesis
    by (auto simp: Let_def RuneError_def split: if_splits)
next
  case f4
  with assms show ?thesis
    by (auto simp: Let_def RuneError_def split: if_splits)
qed

text \<open>What \<open>next\<close> changes: the position and the width only.\<close>

lemma lexer_next_frame:
  assumes "lexer_next l = (r, l1)"
  shows "input l1 = input l" and "start l1 = start l" and "tokens l1 = tokens l"
    and "state l1 = state l" and "closed l1 = closed l" and "pos l1 = pos l + width l1"
  using assms by (auto simp: lexer_next_def split: if_splits prod.splits)

lemma lexer_next_bound:
  assumes "lexer_next l = (r, l1)" and "pos l \<le> length (input l)"
  shows "pos l1 \<le> length (input l)"
proof (cases "length (input l) \<le> pos l")
  case True
  with assms show ?thesis by (auto simp: lexer_next_def)
next
  case False
  then obtain c p where cp: "drop (pos l) (input l) = c # p"
    by (cases "drop (pos l) (input l)") auto
  then have len: "Suc (length p) = length (input l) - pos l"
    by (metis length_Cons length_drop)
  from assms False cp obtain w where w: "DecodeRune (c # p) = (r, w)" "pos l1 = pos l + w"
    by (auto simp: lexer_next_def split: prod.splits)
  from DecodeRune_width [OF w(1)] len w(2) False show ?thesis by arith
qed

lemma backup_next:
  assumes "lexer_next l = (r, l1)"
  shows "backup l1 = l\<lparr>width := width l1\<rparr>"
  using assms by (auto simp: lexer_next_def backup_def split: if_splits prod.splits)

lemma lexer_next_small:
  assumes "lexer_next l = (r, l1)" and "r < 0x80" and "r \<noteq> 0"
  shows "pos l < length (input l) \<and> r = of_char (input l ! pos l) \<and> pos l1 = pos l + 1"
proof -
  from assms have lt: "pos l < length (input l)"
    by (auto simp: lexer_next_def eof_def split: if_splits)
  then obtain p where cp: "drop (pos l) (input l) = (input l ! pos l) # p"
    by (metis Cons_nth_drop_Suc)
  with assms(1) lt obtain w where w: "DecodeRune ((input l ! pos l) # p) = (r, w)"
    "pos l1 = pos l + w"
    by (auto simp: lexer_next_def split: prod.splits)
  from DecodeRune_small [OF w(1) assms(2)] have r: "r = of_char (input l ! pos l)" .
  with w(1) assms(2) have "w = 1" by simp
  with lt r w(2) show ?thesis by simp
qed

lemma lexer_next_ascii:
  assumes "pos l < length (input l)" and "(of_char (input l ! pos l) :: nat) < 0x80"
  shows "lexer_next l = (of_char (input l ! pos l), l\<lparr>width := 1, pos := pos l + 1\<rparr>)"
proof -
  from assms(1) have "drop (pos l) (input l) = input l ! pos l # drop (Suc (pos l)) (input l)"
    by (simp add: Cons_nth_drop_Suc)
  with assms show ?thesis by (simp add: lexer_next_def)
qed

subsection \<open>A block comment without a semicolon never ends\<close>

lemma next_no_semi:
  assumes "lexer_next l = (r, l1)" and "no_semi l"
  shows "r \<noteq> rune CHR '';'' \<and> no_semi l1"
proof
  show "r \<noteq> rune CHR '';''"
  proof
    assume r: "r = rune CHR '';''"
    then have "r < 0x80" "r \<noteq> 0" by simp_all
    from lexer_next_small [OF assms(1) this] r
    have "pos l < length (input l)" "(of_char (input l ! pos l) :: nat) = of_char CHR '';''"
      by simp_all
    then have "pos l < length (input l)" "input l ! pos l = CHR '';''"
      by (simp_all only: of_char_eq_iff)
    then have "CHR '';'' \<in> set (drop (pos l) (input l))"
      by (metis Cons_nth_drop_Suc list.set_intros(1))
    with assms(2) show False by (simp add: no_semi_def)
  qed
  have "set (drop (pos l1) (input l1)) \<subseteq> set (drop (pos l) (input l))"
    using lexer_next_frame(1,6) [OF assms(1)] by (simp add: set_drop_subset_set_drop)
  with assms(2) show "no_semi l1" by (auto simp: no_semi_def)
qed

lemma peek_no_semi:
  assumes "peek l = (r, l1)" and "no_semi l"
  shows "r \<noteq> rune CHR '';'' \<and> no_semi l1"
proof -
  obtain l2 where n: "lexer_next l = (r, l2)" and l1: "l1 = (backup l2)\<lparr>width := width l\<rparr>"
    using assms(1) by (auto simp: peek_def split: prod.splits)
  from backup_next [OF n] l1 have "l1 = l" by simp
  with next_no_semi [OF n assms(2)] assms(2) show ?thesis by simp
qed

lemma lexBlockComment_loop_stuck:
  assumes "lexBlockComment_loop l level = Some y"
  shows "\<not> (no_semi l \<and> 0 < level)"
proof (rule lexBlockComment_loop.raw_induct
    [where P = "\<lambda>l level y. \<not> (no_semi l \<and> 0 < level)", OF _ assms])
  fix f l level y
  assume 1: "\<And>l level y. f l level = Some y \<Longrightarrow> \<not> (no_semi l \<and> 0 < level)"
    "(if 0 < level then
        (case lexer_next l of (r, l1) \<Rightarrow>
           if r = rune CHR ''(''  then
             (case peek l1 of (r1, l2) \<Rightarrow>
                f l2 (if r1 = rune CHR '';'' then level + 1 else level))
           else if r = rune CHR '';'' then
             (case peek l1 of (r1, l2) \<Rightarrow>
                f l2 (if r1 = rune CHR '')'' then level - 1 else level))
           else f l1 level)
      else Some l) = Some y"
  show "\<not> (no_semi l \<and> 0 < level)"
  proof
    assume a: "no_semi l \<and> 0 < level"
    obtain r l1 where n: "lexer_next l = (r, l1)" by (cases "lexer_next l")
    obtain r2 l2 where p: "peek l1 = (r2, l2)" by (cases "peek l1")
    from next_no_semi [OF n] a have r: "r \<noteq> rune CHR '';''" "no_semi l1" by auto
    from peek_no_semi [OF p r(2)] have r2: "r2 \<noteq> rune CHR '';''" "no_semi l2" by auto
    from 1(2) a n p r r2 have "f l2 level = Some y \<or> f l1 level = Some y"
      by (auto split: if_splits)
    with 1(1) r(2) r2(2) a show False by blast
  qed
qed

lemma lexBlockComment_loop_None:
  "no_semi l \<Longrightarrow> 0 < level \<Longrightarrow> lexBlockComment_loop l level = None"
  using lexBlockComment_loop_stuck [of l level] by (cases "lexBlockComment_loop l level") auto

lemma nextToken_unclosed:
  assumes "CHR '';'' \<notin> set rest"
  shows "nextToken (NewLexer (''(;'' @ rest)) = None"
proof -
  let ?inp = "''(;'' @ rest"
  let ?l1 = "\<lparr>input = ?inp, pos = 1, start = 0, width = 1, state = Some LexBlockComment,
    tokens = [], closed = False\<rparr>"
  let ?l2 = "\<lparr>input = ?inp, pos = 2, start = 0, width = 1, state = Some LexBlockComment,
    tokens = [], closed = False\<rparr>"
  have d: "lexDefault (NewLexer ?inp) = Some (Some LexBlockComment, ?l1\<lparr>state := Some LexDefault\<rparr>)"
    by (subst lexDefault.simps)
      (simp add: NewLexer_def lexer_next_def peek_def backup_def eof_def isSpace_def
        newline_def tab_def creturn_def dquote_def)
  have b: "lexBlockComment ?l1 = None"
    using assms
    by (simp add: lexBlockComment_def accept_def lexer_next_def IndexRune_def
        lexBlockComment_loop_None no_semi_def)
  have "nextToken ?l1 = None"
    using b by (subst nextToken.simps) simp
  with d show ?thesis
    by (subst nextToken.simps) (simp add: NewLexer_def)
qed

subsection \<open>The kinds of the keyword table\<close>

lemmas tokenKind_defs =
  tokenError_def tokenEOF_def tokenLParen_def tokenRParen_def tokenIdent_def tokenNumber_def
  tokenString_def tokenNumtype_def tokenVectype_def tokenReftype_def tokenOffsetEq_def
  tokenAlignEq_def tokenKeyword_def tokenModule_def tokenType_def tokenFunc_def tokenParam_def
  tokenResult_def tokenBlock_def tokenLoop_def tokenIf_def tokenThen_def tokenElse_def
  tokenEnd_def tokenUnreachable_def tokenNop_def tokenBr_def tokenBrIf_def tokenBrTable_def
  tokenReturn_def tokenCall_def tokenCallIndirect_def tokenDrop_def tokenSelect_def
  tokenLocalGet_def tokenLocalTee_def tokenLocalSet_def tokenGlobalGet_def tokenGlobalSet_def
  tokenTableGet_def tokenTableSet_def tokenTableSize_def tokenTableGrow_def tokenTableFill_def
  tokenTableCopy_def tokenTableInit_def tokenElemDrop_def tokenMemorySize_def
  tokenMemoryGrow_def tokenMemoryFill_def tokenMemoryCopy_def tokenMemoryInit_def
  tokenDataDrop_def tokenI32Load_def tokenI64Load_def tokenF32Load_def tokenF64Load_def
  tokenI32Store_def tokenI64Store_def tokenF32Store_def tokenF64Store_def tokenI32Load8U_def
  tokenI32Load8S_def tokenI32Load16U_def tokenI32Load16S_def tokenI64Load8U_def
  tokenI64Load8S_def tokenI64Load16U_def tokenI64Load16S_def tokenI64Load32U_def
  tokenI64Load32S_def tokenI32Store8_def tokenI32Store16_def tokenI64Store8_def
  tokenI64Store16_def tokenI64Store32_def tokenV128Load_def tokenV128Store_def
  tokenV128Load8x8U_def tokenV128Load8x8S_def tokenV128Load16x4U_def tokenV128Load16x4S_def
  tokenV128Load32x2U_def tokenV128Load32x2S_def tokenV128Load8Splat_def
  tokenV128Load16Splat_def tokenV128Load32Splat_def tokenV128Load64Splat_def
  tokenV128Load32Zero_def tokenV128Load64Zero_def tokenV128Load8Lane_def
  tokenV128Load16Lane_def tokenV128Load32Lane_def tokenV128Load64Lane_def
  tokenV128Store8Lane_def tokenV128Store16Lane_def tokenV128Store32Lane_def
  tokenV128Store64Lane_def tokenI32Const_def tokenI64Const_def tokenF32Const_def
  tokenF64Const_def tokenV128Const_def tokenRefNull_def tokenRefFunc_def tokenRefExtern_def
  tokenRefIsNull_def tokenI32Clz_def tokenI32Ctz_def tokenI32Popcnt_def tokenI32Extend8S_def
  tokenI32Extend16S_def tokenI64Clz_def tokenI64Ctz_def tokenI64Popcnt_def
  tokenI64Extend8S_def tokenI64Extend16S_def tokenI64Extend32S_def tokenF32Neg_def
  tokenF32Abs_def tokenF32Sqrt_def tokenF32Ceil_def tokenF32Floor_def tokenF32Trunc_def
  tokenF32Nearest_def tokenF64Neg_def tokenF64Abs_def tokenF64Sqrt_def tokenF64Ceil_def
  tokenF64Floor_def tokenF64Trunc_def tokenF64Nearest_def tokenI32Add_def tokenI32Sub_def
  tokenI32Mul_def tokenI32DivU_def tokenI32DivS_def tokenI32RemU_def tokenI32RemS_def
  tokenI32And_def tokenI32Or_def tokenI32Xor_def tokenI32Shl_def tokenI32ShrU_def
  tokenI32ShrS_def tokenI32Rotl_def tokenI32Rotr_def tokenI64Add_def tokenI64Sub_def
  tokenI64Mul_def tokenI64DivU_def tokenI64DivS_def tokenI64RemU_def tokenI64RemS_def
  tokenI64And_def tokenI64Or_def tokenI64Xor_def tokenI64Shl_def tokenI64ShrU_def
  tokenI64ShrS_def tokenI64Rotl_def tokenI64Rotr_def tokenF32Add_def tokenF32Sub_def
  tokenF32Mul_def tokenF32Div_def tokenF32Min_def tokenF32Max_def tokenF32Copysign_def
  tokenF64Add_def tokenF64Sub_def tokenF64Mul_def tokenF64Div_def tokenF64Min_def
  tokenF64Max_def tokenF64Copysign_def tokenI32Eqz_def tokenI64Eqz_def tokenI32Eq_def
  tokenI32Ne_def tokenI32LtU_def tokenI32LtS_def tokenI32LeU_def tokenI32LeS_def
  tokenI32GtU_def tokenI32GtS_def tokenI32GeU_def tokenI32GeS_def tokenI64Eq_def
  tokenI64Ne_def tokenI64LtU_def tokenI64LtS_def tokenI64LeU_def tokenI64LeS_def
  tokenI64GtU_def tokenI64GtS_def tokenI64GeU_def tokenI64GeS_def tokenF32Eq_def
  tokenF32Ne_def tokenF32Lt_def tokenF32Le_def tokenF32Gt_def tokenF32Ge_def tokenF64Eq_def
  tokenF64Ne_def tokenF64Lt_def tokenF64Le_def tokenF64Gt_def tokenF64Ge_def
  tokenI32WrapI64_def tokenI64ExtendI32S_def tokenI64ExtendI32U_def tokenF32DemoteF64_def
  tokenF64PromoteF32_def tokenI32TruncF32U_def tokenI32TruncF32S_def tokenI64TruncF32U_def
  tokenI64TruncF32S_def tokenI32TruncF64U_def tokenI32TruncF64S_def tokenI64TruncF64U_def
  tokenI64TruncF64S_def tokenI32TruncSatF32U_def tokenI32TruncSatF32S_def
  tokenI64TruncSatF32U_def tokenI64TruncSatF32S_def tokenI32TruncSatF64U_def
  tokenI32TruncSatF64S_def tokenI64TruncSatF64U_def tokenI64TruncSatF64S_def
  tokenF32ConvertI32U_def tokenF32ConvertI32S_def tokenF64ConvertI32U_def
  tokenF64ConvertI32S_def tokenF32ConvertI64U_def tokenF32ConvertI64S_def
  tokenF64ConvertI64U_def tokenF64ConvertI64S_def tokenF32ReinterpretI32_def
  tokenF64ReinterpretI64_def tokenI32ReinterpretF32_def tokenI64ReinterpretF64_def
  tokenV128Not_def tokenV128And_def tokenV128Andnot_def tokenV128Or_def tokenV128Xor_def
  tokenV128Bitselect_def tokenV128AnyTrue_def tokenI8x16Neg_def tokenI16x8Neg_def
  tokenI32x4Neg_def tokenI64x2Neg_def tokenI8x16Abs_def tokenI16x8Abs_def tokenI32x4Abs_def
  tokenI64x2Abs_def tokenI8x16Popcnt_def tokenI8x16AvgrU_def tokenI16x8AvgrU_def
  tokenF32x4Neg_def tokenF64x2Neg_def tokenF32x4Abs_def tokenF64x2Abs_def tokenF32x4Sqrt_def
  tokenF64x2Sqrt_def tokenF32x4Ceil_def tokenF64x2Ceil_def tokenF32x4Floor_def
  tokenF64x2Floor_def tokenF32x4Trunc_def tokenF64x2Trunc_def tokenF32x4Nearest_def
  tokenF64x2Nearest_def tokenI32x4TruncSatF32x4U_def tokenI32x4TruncSatF32x4S_def
  tokenI32x4TruncSatF64x2UZero_def tokenI32x4TruncSatF64x2SZero_def
  tokenF64x2PromoteLowF32x4_def tokenF32x4DemoteF64x2Zero_def tokenF32x4ConvertI32x4U_def
  tokenF32x4ConvertI32x4S_def tokenF64x2ConvertLowI32x4U_def tokenF64x2ConvertLowI32x4S_def
  tokenI16x8ExtaddPairwiseI8x16U_def tokenI16x8ExtaddPairwiseI8x16S_def
  tokenI32x4ExtaddPairwiseI16x8U_def tokenI32x4ExtaddPairwiseI16x8S_def tokenI8x16Eq_def
  tokenI16x8Eq_def tokenI32x4Eq_def tokenI64x2Eq_def tokenI8x16Ne_def tokenI16x8Ne_def
  tokenI32x4Ne_def tokenI64x2Ne_def tokenI8x16LtU_def tokenI8x16LtS_def tokenI16x8LtU_def
  tokenI16x8LtS_def tokenI32x4LtU_def tokenI32x4LtS_def tokenI64x2LtS_def tokenI8x16LeU_def
  tokenI8x16LeS_def tokenI16x8LeU_def tokenI16x8LeS_def tokenI32x4LeU_def tokenI32x4LeS_def
  tokenI64x2LeS_def tokenI8x16GtU_def tokenI8x16GtS_def tokenI16x8GtU_def tokenI16x8GtS_def
  tokenI32x4GtU_def tokenI32x4GtS_def tokenI64x2GtS_def tokenI8x16GeU_def tokenI8x16GeS_def
  tokenI16x8GeU_def tokenI16x8GeS_def tokenI32x4GeU_def tokenI32x4GeS_def tokenI64x2GeS_def
  tokenF32x4Eq_def tokenF64x2Eq_def tokenF32x4Ne_def tokenF64x2Ne_def tokenF32x4Lt_def
  tokenF64x2Lt_def tokenF32x4Le_def tokenF64x2Le_def tokenF32x4Gt_def tokenF64x2Gt_def
  tokenF32x4Ge_def tokenF64x2Ge_def tokenI8x16Swizzle_def tokenI8x16Add_def tokenI16x8Add_def
  tokenI32x4Add_def tokenI64x2Add_def tokenI8x16Sub_def tokenI16x8Sub_def tokenI32x4Sub_def
  tokenI64x2Sub_def tokenI16x8Mul_def tokenI32x4Mul_def tokenI64x2Mul_def
  tokenI8x16AddSatU_def tokenI8x16AddSatS_def tokenI16x8AddSatU_def tokenI16x8AddSatS_def
  tokenI8x16SubSatU_def tokenI8x16SubSatS_def tokenI16x8SubSatU_def tokenI16x8SubSatS_def
  tokenI32x4DotI16x8S_def tokenI8x16MinU_def tokenI16x8MinU_def tokenI32x4MinU_def
  tokenI8x16MinS_def tokenI16x8MinS_def tokenI32x4MinS_def tokenI8x16MaxU_def
  tokenI16x8MaxU_def tokenI32x4MaxU_def tokenI8x16MaxS_def tokenI16x8MaxS_def
  tokenI32x4MaxS_def tokenF32x4Add_def tokenF64x2Add_def tokenF32x4Sub_def tokenF64x2Sub_def
  tokenF32x4Mul_def tokenF64x2Mul_def tokenF32x4Div_def tokenF64x2Div_def tokenF32x4Min_def
  tokenF64x2Min_def tokenF32x4Max_def tokenF64x2Max_def tokenF32x4Pmin_def tokenF64x2Pmin_def
  tokenF32x4Pmax_def tokenF64x2Pmax_def tokenI16x8Q15mulrSatS_def tokenI8x16NarrowI16x8U_def
  tokenI8x16NarrowI16x8S_def tokenI16x8NarrowI32x4U_def tokenI16x8NarrowI32x4S_def
  tokenI16x8ExtendLowI8x16U_def tokenI16x8ExtendLowI8x16S_def tokenI16x8ExtendHighI8x16U_def
  tokenI16x8ExtendHighI8x16S_def tokenI32x4ExtendLowI16x8U_def tokenI32x4ExtendLowI16x8S_def
  tokenI32x4ExtendHighI16x8U_def tokenI32x4ExtendHighI16x8S_def tokenI64x2ExtendLowI32x4U_def
  tokenI64x2ExtendLowI32x4S_def tokenI64x2ExtendHighI32x4U_def tokenI64x2ExtendHighI32x4S_def
  tokenI16x8ExtmulLowI8x16U_def tokenI16x8ExtmulLowI8x16S_def tokenI16x8ExtmulHighI8x16U_def
  tokenI16x8ExtmulHighI8x16S_def tokenI32x4ExtmulLowI16x8U_def tokenI32x4ExtmulLowI16x8S_def
  tokenI32x4ExtmulHighI16x8U_def tokenI32x4ExtmulHighI16x8S_def tokenI64x2ExtmulLowI32x4U_def
  tokenI64x2ExtmulLowI32x4S_def tokenI64x2ExtmulHighI32x4U_def tokenI64x2ExtmulHighI32x4S_def
  tokenI8x16AllTrue_def tokenI16x8AllTrue_def tokenI32x4AllTrue_def tokenI64x2AllTrue_def
  tokenI8x16Bitmask_def tokenI16x8Bitmask_def tokenI32x4Bitmask_def tokenI64x2Bitmask_def
  tokenI8x16Shl_def tokenI16x8Shl_def tokenI32x4Shl_def tokenI64x2Shl_def tokenI8x16ShrU_def
  tokenI8x16ShrS_def tokenI16x8ShrU_def tokenI16x8ShrS_def tokenI32x4ShrU_def
  tokenI32x4ShrS_def tokenI64x2ShrU_def tokenI64x2ShrS_def tokenI8x16Shuffle_def
  tokenI8x16Splat_def tokenI16x8Splat_def tokenI32x4Splat_def tokenI64x2Splat_def
  tokenF32x4Splat_def tokenF64x2Splat_def tokenI8x16ExtractLaneU_def
  tokenI8x16ExtractLaneS_def tokenI16x8ExtractLaneU_def tokenI16x8ExtractLaneS_def
  tokenI32x4ExtractLane_def tokenI64x2ExtractLane_def tokenF32x4ExtractLane_def
  tokenF64x2ExtractLane_def tokenI8x16ReplaceLane_def tokenI16x8ReplaceLane_def
  tokenI32x4ReplaceLane_def tokenI64x2ReplaceLane_def tokenF32x4ReplaceLane_def
  tokenF64x2ReplaceLane_def tokenStart_def tokenLocal_def tokenGlobal_def tokenTable_def
  tokenMemory_def tokenElem_def tokenData_def tokenDeclare_def tokenOffset_def tokenItem_def
  tokenImport_def tokenExport_def tokenBin_def tokenQuote_def tokenScript_def
  tokenRegister_def tokenInvoke_def tokenGet_def tokenAssertMalformed_def
  tokenAssertInvalid_def tokenAssertUnlinkable_def tokenAssertReturn_def tokenAssertTrap_def
  tokenAssertExhaustion_def tokenNanCanonical_def tokenNanArithmetic_def tokenInput_def
  tokenOuput_def tokenExtern_def tokenExternRef_def tokenFuncRef_def tokenMut_def

lemma key_table_kinds: "list_all (\<lambda>(s, k). 2 \<le> k) key_table"
  unfolding key_table_def tokenKind_defs by simp

lemma key_kind: "key s = Some k \<Longrightarrow> 2 \<le> k"
  using key_table_kinds by (auto simp: key_def list_all_iff dest: map_of_SomeD)

lemma keyword_kind_ge: "2 \<le> keyword_kind s"
  by (auto simp: keyword_kind_def tokenKeyword_def dest: key_kind split: option.splits)

lemma keyword_kind_neq [simp]: "keyword_kind s \<noteq> 0" "keyword_kind s \<noteq> Suc 0"
  using keyword_kind_ge [of s] by auto

lemma key_table_kinds7: "list_all (\<lambda>(s, k). 7 \<le> k) key_table"
  unfolding key_table_def tokenKind_defs by simp

lemma keyword_kind_ge7: "7 \<le> keyword_kind s"
proof (cases "key s")
  case None
  then show ?thesis by (simp add: keyword_kind_def tokenKeyword_def)
next
  case (Some k)
  then have "(s, k) \<in> set key_table" by (simp add: key_def map_of_SomeD)
  with key_table_kinds7 have "7 \<le> k" by (auto simp: list_all_iff)
  with Some show ?thesis by (simp add: keyword_kind_def)
qed

lemma lexKeyword_kind:
  "lexKeyword l0 =
     Option.bind (acceptRun keyword l0)
       (\<lambda>(n, l). Some (Some LexDefault, emit (keyword_kind (lexeme l)) l))"
  by (auto simp: lexKeyword_def keyword_kind_def split: option.splits Option.bind_splits)

lemmas lex_eval =
  NewLexer_def lexer_next_def ignore_def backup_def peek_def lexeme_def emit_def
  emitWithData_def accept_def acceptRun_def errorf_def subslice_def
  acceptRun_loop.simps lexDefault.simps lexBlockComment_loop.simps lexComment_loop.simps
  lexString_loop.simps unicode_loop.simps nextToken.simps lexAll.simps Parse_loop.simps
  lexBlockComment_def lexNumber_def lexKeyword_kind lexComment_def lexIdentifier_def
  lexString_def escapeSeq_def
  isLowercaseLetter_def isHexDigit_def isSpace_def IndexRune_def EncodeRune_def
  ParseUint_16_16_def hex_digit_val_def RuneError_def eof_def
  dquote_def squote_def backslash_def newline_def creturn_def tab_def digit_def letter_def
  symbol_def sign_def keyword_def idChar_def hexDigit_def
  tokenError_def tokenEOF_def tokenLParen_def tokenRParen_def tokenIdent_def tokenNumber_def
  tokenString_def tokenKeyword_def
  Parse_def NewParser_def NewNode_def newID_def

lemma char_of_consts:
  "char_of (0xC3::nat) = CHR 0xC3" "char_of (0xBF::nat) = CHR 0xBF"
  "char_of (0xEF::nat) = CHR 0xEF" "char_of (0x41::nat) = CHR ''A''"
  "char_of (0x61::nat) = CHR ''a''"
proof -
  have "(0xC3::nat) = of_char (CHR 0xC3)" "(0xBF::nat) = of_char (CHR 0xBF)"
    "(0xEF::nat) = of_char (CHR 0xEF)" "(0x41::nat) = of_char CHR ''A''"
    "(0x61::nat) = of_char CHR ''a''"
    by simp_all
  then show "char_of (0xC3::nat) = CHR 0xC3" "char_of (0xBF::nat) = CHR 0xBF"
    "char_of (0xEF::nat) = CHR 0xEF" "char_of (0x41::nat) = CHR ''A''"
    "char_of (0x61::nat) = CHR ''a''"
    by (simp_all only: char_of_char)
qed

subsection \<open>Skipping whitespace\<close>

lemma skip_space_le: "p \<le> length inp \<Longrightarrow> skip_space inp p \<le> length inp"
proof -
  assume p: "p \<le> length inp"
  have "length (takeWhile is_space (drop p inp)) \<le> length (drop p inp)"
    by (rule length_takeWhile_le)
  with p show ?thesis by (simp add: skip_space_def)
qed

lemma skip_space_stop:
  assumes "length inp \<le> p \<or> \<not> is_space (inp ! p)"
  shows "skip_space inp p = p"
proof (cases "length inp \<le> p")
  case True
  then show ?thesis by (simp add: skip_space_def)
next
  case False
  with assms have ns: "\<not> is_space (inp ! p)" by simp
  from False have "drop p inp = inp ! p # drop (Suc p) inp" by (simp add: Cons_nth_drop_Suc)
  with ns show ?thesis by (simp add: skip_space_def)
qed

lemma skip_space_step:
  assumes "p < length inp" and "is_space (inp ! p)"
  shows "skip_space inp (Suc p) = skip_space inp p"
proof -
  from assms(1) have "drop p inp = inp ! p # drop (Suc p) inp" by (simp add: Cons_nth_drop_Suc)
  with assms(2) show ?thesis by (simp add: skip_space_def)
qed

lemma skip_space_idem: "skip_space inp (skip_space inp p) = skip_space inp p"
proof (rule skip_space_stop, rule disjCI)
  let ?xs = "drop p inp"
  let ?n = "length (takeWhile is_space ?xs)"
  assume "\<not> \<not> is_space (inp ! skip_space inp p)"
  then have sp: "is_space (inp ! (p + ?n))" by (simp add: skip_space_def)
  show "length inp \<le> skip_space inp p"
  proof (rule ccontr)
    assume "\<not> length inp \<le> skip_space inp p"
    then have lt: "?n < length ?xs" by (simp add: skip_space_def)
    then have "\<not> is_space (?xs ! ?n)" by (rule nth_length_takeWhile)
    moreover from lt have "?xs ! ?n = inp ! (p + ?n)" by simp
    ultimately show False using sp by simp
  qed
qed

lemma token_at_skip: "token_at inp (skip_space inp p) t q = token_at inp p t q"
  by (simp add: token_at_def skip_space_idem)

lemma scan_inv_skip: "scan_inv l (skip_space (input l) p) = scan_inv l p"
  by (simp add: scan_inv_def skip_space_idem token_at_skip)

lemma isSpace_small: "isSpace r \<Longrightarrow> r < 0x80 \<and> r \<noteq> 0"
  by (auto simp: isSpace_def newline_def tab_def creturn_def)

lemma not_space_eof: "\<not> isSpace eof"
  by (simp add: isSpace_def eof_def newline_def tab_def creturn_def)

lemma next_at_space:
  assumes "lexer_next l = (r, l1)" and "isSpace r"
  shows "pos l < length (input l) \<and> is_space (input l ! pos l) \<and> pos l1 = pos l + 1"
proof -
  from isSpace_small [OF assms(2)] have "r < 0x80" "r \<noteq> 0" by simp_all
  from lexer_next_small [OF assms(1) this] assms(2) show ?thesis by (simp add: is_space_def)
qed

lemma next_not_space:
  assumes "lexer_next l = (r, l1)" and "\<not> isSpace r"
  shows "length (input l) \<le> pos l \<or> \<not> is_space (input l ! pos l)"
proof (rule disjCI)
  assume "\<not> \<not> is_space (input l ! pos l)"
  then have sp: "isSpace (rune (input l ! pos l))" by (simp add: is_space_def)
  show "length (input l) \<le> pos l"
  proof (rule ccontr)
    assume "\<not> length (input l) \<le> pos l"
    then have lt: "pos l < length (input l)" by simp
    from isSpace_small [OF sp] have "(of_char (input l ! pos l) :: nat) < 0x80" by simp
    from lexer_next_ascii [OF lt this] assms(1) have "r = of_char (input l ! pos l)" by simp
    with sp assms(2) show False by simp
  qed
qed

lemma next_not_semi:
  assumes "lexer_next l = (r, l1)" and "CHR '';'' \<notin> set (input l)"
  shows "r \<noteq> rune CHR '';''"
proof -
  from assms(2) have "no_semi l" by (auto simp: no_semi_def dest: in_set_dropD)
  from next_no_semi [OF assms(1) this] show ?thesis by simp
qed

lemma peek_same:
  assumes "peek l = (r, l1)"
  shows "l1 = l"
proof -
  obtain l2 where n: "lexer_next l = (r, l2)" and l1: "l1 = (backup l2)\<lparr>width := width l\<rparr>"
    using assms by (auto simp: peek_def split: prod.splits)
  from backup_next [OF n] l1 show ?thesis by simp
qed

lemma peek_not_semi:
  assumes "peek l = (r, l1)" and "CHR '';'' \<notin> set (input l)"
  shows "r \<noteq> rune CHR '';''"
proof -
  obtain l2 where n: "lexer_next l = (r, l2)"
    using assms(1) by (auto simp: peek_def split: prod.splits)
  from next_not_semi [OF n assms(2)] show ?thesis .
qed

subsection \<open>The operations that only advance the position\<close>

lemma adv_width: "adv l (l\<lparr>width := w\<rparr>)"
  by (auto simp: adv_def)

lemma adv_trans: "adv a b \<Longrightarrow> adv b c \<Longrightarrow> adv a c"
  by (auto simp: adv_def)

lemma next_adv:
  assumes "lexer_next l = (r, l1)"
  shows "adv l l1"
proof -
  have "length (input l) < pos l \<or> pos l1 \<le> length (input l)"
    using lexer_next_bound [OF assms] by (cases "pos l \<le> length (input l)") simp_all
  with lexer_next_frame [OF assms] show ?thesis by (simp add: adv_def)
qed

lemma backup_adv:
  assumes "lexer_next l = (r, l1)"
  shows "adv l (backup l1)"
  using backup_next [OF assms] adv_width [of l "width l1"] by simp

lemma accept_adv:
  assumes "accept valid l = (b, l1)"
  shows "adv l l1"
proof -
  obtain r l2 where n: "lexer_next l = (r, l2)" by (cases "lexer_next l")
  from assms n have "l1 = l2 \<or> l1 = backup l2"
    by (auto simp: accept_def split: if_splits)
  with next_adv [OF n] backup_adv [OF n] show ?thesis by auto
qed

lemma acceptRun_loop_adv:
  assumes "acceptRun_loop valid l count = Some y"
  shows "adv l (snd y)"
proof (rule acceptRun_loop.raw_induct
    [where P = "\<lambda>valid l count y. adv l (snd y)", OF _ assms], goal_cases)
  case (1 f valid l count y)
  obtain r l2 where n: "lexer_next l = (r, l2)" by (cases "lexer_next l")
  from 1(2) n consider (more) "f valid l2 (count + 1) = Some y" | (stop) "snd y = backup l2"
    by (auto split: if_splits)
  then show ?case
  proof cases
    case more
    from 1(1) [OF more] next_adv [OF n] show ?thesis by (rule adv_trans [rotated])
  next
    case stop
    with backup_adv [OF n] show ?thesis by simp
  qed
qed

lemma acceptRun_adv: "acceptRun valid l = Some (n, l1) \<Longrightarrow> adv l l1"
  using acceptRun_loop_adv [of valid l 0 "(n, l1)"] by (simp add: acceptRun_def)

lemma unicode_loop_adv: "unicode_loop l s i = (res, l1) \<Longrightarrow> adv l l1"
proof (induction l s i arbitrary: res l1 rule: unicode_loop.induct)
  case (1 l0 s i)
  obtain d l where n: "lexer_next l0 = (d, l)" by (cases "lexer_next l0")
  from "1.prems" n consider (stop) "l1 = l0" | (bkup) "l1 = backup l" | (err) "l1 = l"
    | (more) "i < 7" "d \<noteq> rune CHR ''}''" "d \<noteq> eof" "\<not> \<not> isHexDigit d"
      "unicode_loop l (s @ EncodeRune d) (i + 1) = (res, l1)"
    by (subst (asm) unicode_loop.simps) (auto split: if_splits)
  then show ?case
  proof cases
    case stop
    with adv_width [of l0 "width l0"] show ?thesis by simp
  next
    case bkup
    with backup_adv [OF n] show ?thesis by simp
  next
    case err
    with next_adv [OF n] show ?thesis by simp
  next
    case more
    from next_adv [OF n] "1.IH" [OF more(1) n [symmetric] more(2,3,4,5)]
    show ?thesis by (rule adv_trans)
  qed
qed

lemma escapeSeq_adv:
  assumes "escapeSeq l = (res, l1)"
  shows "adv l l1"
proof -
  obtain r l2 where n: "lexer_next l = (r, l2)" by (cases "lexer_next l")
  obtain r3 l3 where n3: "lexer_next l2 = (r3, l3)" by (cases "lexer_next l2")
  obtain b4 l4 where a4: "accept ''{'' l2 = (b4, l4)" by (cases "accept ''{'' l2")
  obtain res5 l5 where u5: "unicode_loop l4 [] 0 = (res5, l5)" by (cases "unicode_loop l4 [] 0")
  obtain b6 l6 where a6: "accept ''}'' l5 = (b6, l6)" by (cases "accept ''}'' l5")
  have ad2: "adv l l2" using next_adv [OF n] .
  have ad3: "adv l l3" using ad2 next_adv [OF n3] by (rule adv_trans)
  have ad4: "adv l l4" using ad2 accept_adv [OF a4] by (rule adv_trans)
  have ad5: "adv l l5" using ad4 unicode_loop_adv [OF u5] by (rule adv_trans)
  have ad6: "adv l l6" using ad5 accept_adv [OF a6] by (rule adv_trans)
  from assms n n3 a4 u5 a6 have "l1 = l2 \<or> l1 = l3 \<or> l1 = l4 \<or> l1 = l5 \<or> l1 = l6"
    by (auto simp: escapeSeq_def Let_def split: if_splits sum.splits)
  with ad2 ad3 ad4 ad5 ad6 show ?thesis by auto
qed

subsection \<open>The state functions keep the tokens laid out in the input\<close>

lemma emit_scan_inv:
  assumes "CHR '';'' \<notin> set (input l)" and "tokens l = []"
    and "start l = skip_space (input l) p" and "start l \<le> pos l"
    and "pos l \<le> length (input l)" and "k \<noteq> tokenError" and "k \<noteq> tokenString"
    and "st = None \<or> st = Some LexDefault"
  shows "scan_inv ((emit k l)\<lparr>state := st\<rparr>) p \<and> input (emit k l) = input l"
proof -
  let ?t = "\<lparr>kind = k, val = Bytes (subslice (input l) (start l) (pos l))\<rparr>"
  let ?l = "(emit k l)\<lparr>state := st\<rparr>"
  have t: "token_at (input l) p ?t (pos l)"
    using assms(3-7) by (simp add: token_at_def)
  have f: "tokens ?l = [?t]" "start ?l = pos l" "pos ?l = pos l" "input ?l = input l"
    "state ?l = st"
    using assms(2) by (simp_all add: emit_def)
  from assms(3,4,5) have "skip_space (input l) p \<le> length (input l)" by simp
  with t f assms(1,8) show ?thesis unfolding scan_inv_def by (simp add: emit_def)
qed

lemma emitWithData_scan_inv:
  assumes "CHR '';'' \<notin> set (input l)" and "tokens l = []"
    and "start l = skip_space (input l) p" and "start l < pos l"
    and "pos l \<le> length (input l)"
  shows "scan_inv ((emitWithData tokenString d l)\<lparr>state := Some LexDefault\<rparr>) p
    \<and> input (emitWithData tokenString d l) = input l"
proof -
  let ?t = "\<lparr>kind = tokenString, val = Bytes d\<rparr>"
  let ?l = "(emitWithData tokenString d l)\<lparr>state := Some LexDefault\<rparr>"
  have t: "token_at (input l) p ?t (pos l)"
    using assms(3-5) by (simp add: token_at_def tokenString_def tokenError_def)
  have f: "tokens ?l = [?t]" "start ?l = pos l" "pos ?l = pos l" "input ?l = input l"
    "state ?l = Some LexDefault"
    using assms(2) by (simp_all add: emitWithData_def)
  from assms(3,4,5) have "skip_space (input l) p \<le> length (input l)" by simp
  with t f assms(1) show ?thesis unfolding scan_inv_def by (simp add: emitWithData_def)
qed

lemma errorf_scan_inv:
  assumes "CHR '';'' \<notin> set (input l)" and "tokens l = []"
    and "start l = skip_space (input l) p" and "start l \<le> length (input l)"
  shows "scan_inv ((snd (errorf fm a l))\<lparr>state := fst (errorf fm a l)\<rparr>) p
    \<and> input (snd (errorf fm a l)) = input l"
proof -
  let ?t = "\<lparr>kind = tokenError, val = Message fm a\<rparr>"
  let ?l = "(snd (errorf fm a l))\<lparr>state := fst (errorf fm a l)\<rparr>"
  have t: "token_at (input l) p ?t (start l)"
    using assms(3,4) by (simp add: token_at_def)
  have f: "tokens ?l = [?t]" "start ?l = start l" "input ?l = input l" "state ?l = None"
    using assms(2) by (simp_all add: errorf_def)
  from assms(3,4) have "skip_space (input l) p \<le> length (input l)" by simp
  with t f assms(1) show ?thesis unfolding scan_inv_def by (simp add: errorf_def)
qed

lemma lexDefault_inv:
  assumes "lexDefault l = Some y"
  shows "\<forall>p. CHR '';'' \<notin> set (input l) \<and> tokens l = [] \<and> start l = pos l
      \<and> skip_space (input l) (pos l) = skip_space (input l) p
      \<and> skip_space (input l) p \<le> length (input l)
    \<longrightarrow> scan_inv ((snd y)\<lparr>state := fst y\<rparr>) p \<and> input (snd y) = input l"
proof (rule lexDefault.raw_induct
    [where P = "\<lambda>l y. \<forall>p. CHR '';'' \<notin> set (input l) \<and> tokens l = [] \<and> start l = pos l
      \<and> skip_space (input l) (pos l) = skip_space (input l) p
      \<and> skip_space (input l) p \<le> length (input l)
    \<longrightarrow> scan_inv ((snd y)\<lparr>state := fst y\<rparr>) p \<and> input (snd y) = input l",
      OF _ assms], goal_cases)
  case (1 f l y)
  obtain r l1 where n: "lexer_next l = (r, l1)" by (cases "lexer_next l")
  obtain r2 l2 where p2: "peek l1 = (r2, l2)" by (cases "peek l1")
  note same = peek_same [OF p2]
  show ?case
  proof (intro allI impI)
    fix p
    assume pre: "CHR '';'' \<notin> set (input l) \<and> tokens l = [] \<and> start l = pos l
      \<and> skip_space (input l) (pos l) = skip_space (input l) p
      \<and> skip_space (input l) p \<le> length (input l)"
    note ad = next_adv [OF n]
    then have fr: "input l1 = input l" "tokens l1 = []" "start l1 = pos l" "pos l \<le> pos l1"
      using pre by (simp_all add: adv_def)
    from 1(2) n p2 same consider (c_space) "isSpace r" "f (ignore l1) = Some y"
      | (c_semi) "r = rune CHR '';''" | (c_blk) "r2 = rune CHR '';''"
      | (c_eof) "r = eof" "fst y = None" "snd y = emit tokenEOF l1"
      | (c_lp) "\<not> isSpace r" "fst y = Some LexDefault" "snd y = emit tokenLParen l1"
      | (c_rp) "\<not> isSpace r" "fst y = Some LexDefault" "snd y = emit tokenRParen l1"
      | (c_bkup) "\<not> isSpace r" "snd y = backup l1"
        "fst y = Some LexNumber \<or> fst y = Some LexIdentifier \<or> fst y = Some LexKeyword"
      | (c_str) "r = rune dquote" "fst y = Some LexString" "snd y = l1"
      | (c_err) fm a where "\<not> isSpace r" "fst y = fst (errorf fm a l1)"
        "snd y = snd (errorf fm a l1)"
      by (auto simp: not_space_eof split: if_splits)
    moreover
    have emit_case: "scan_inv ((emit k l1)\<lparr>state := st\<rparr>) p \<and> input (emit k l1) = input l"
      if "\<not> isSpace r" and "k = tokenEOF \<or> k = tokenLParen \<or> k = tokenRParen"
        and "st = None \<or> st = Some LexDefault" for k st
    proof -
      from skip_space_stop [OF next_not_space [OF n that(1)]] pre
      have s: "start l1 = skip_space (input l1) p" "pos l \<le> length (input l)"
        using fr by simp_all
      with ad have le: "pos l1 \<le> length (input l1)" by (auto simp: adv_def)
      from that(2) have k: "k \<noteq> tokenError" "k \<noteq> tokenString"
        by (auto simp: tokenEOF_def tokenLParen_def tokenRParen_def tokenError_def
            tokenString_def)
      from fr pre have "CHR '';'' \<notin> set (input l1)" "start l1 \<le> pos l1" by simp_all
      from emit_scan_inv [OF this(1) fr(2) s(1) this(2) le k that(3)] fr(1)
      show ?thesis by simp
    qed
    ultimately show "scan_inv ((snd y)\<lparr>state := fst y\<rparr>) p \<and> input (snd y) = input l"
    proof cases
      case c_space
      from next_at_space [OF n c_space(1)]
      have sp: "pos l < length (input l)" "is_space (input l ! pos l)" "pos l1 = pos l + 1"
        by simp_all
      from skip_space_step [OF sp(1,2)] sp(3) pre fr
      have "CHR '';'' \<notin> set (input (ignore l1)) \<and> tokens (ignore l1) = []
        \<and> start (ignore l1) = pos (ignore l1)
        \<and> skip_space (input (ignore l1)) (pos (ignore l1)) = skip_space (input (ignore l1)) p
        \<and> skip_space (input (ignore l1)) p \<le> length (input (ignore l1))"
        by (simp add: ignore_def)
      from 1(1) [OF c_space(2), rule_format, OF this] fr(1) show ?thesis
        by (simp add: ignore_def)
    next
      case c_semi
      with next_not_semi [OF n] pre show ?thesis by simp
    next
      case c_blk
      with peek_not_semi [OF p2] pre fr(1) show ?thesis by simp
    next
      case c_eof
      with emit_case [of tokenEOF None] not_space_eof show ?thesis by simp
    next
      case c_lp
      with emit_case [of tokenLParen "Some LexDefault"] show ?thesis by simp
    next
      case c_rp
      with emit_case [of tokenRParen "Some LexDefault"] show ?thesis by simp
    next
      case c_bkup
      from skip_space_stop [OF next_not_space [OF n c_bkup(1)]] pre
      have s: "pos l = skip_space (input l) p" by simp
      from backup_next [OF n] c_bkup(2) have y: "snd y = l\<lparr>width := width l1\<rparr>" by simp
      with s pre c_bkup(3) show ?thesis unfolding scan_inv_def by auto
    next
      case c_str
      then have ns: "\<not> isSpace r" "r < 0x80" "r \<noteq> 0"
        by (simp_all add: isSpace_def dquote_def newline_def tab_def creturn_def)
      from skip_space_stop [OF next_not_space [OF n ns(1)]] pre
      have s: "pos l = skip_space (input l) p" by simp
      from lexer_next_small [OF n ns(2,3)] have "pos l1 = pos l + 1" "pos l < length (input l)"
        by simp_all
      with s pre fr c_str(2,3) show ?thesis unfolding scan_inv_def by auto
    next
      case c_err
      from skip_space_stop [OF next_not_space [OF n c_err(1)]] pre
      have s: "start l1 = skip_space (input l1) p" "start l1 \<le> length (input l1)"
        using fr by simp_all
      from errorf_scan_inv [of l1 p fm a] s fr pre c_err(2,3) show ?thesis by simp
    qed
  qed
qed

lemma lexNumber_inv:
  assumes "lexNumber l = Some y" and "CHR '';'' \<notin> set (input l)" and "tokens l = []"
    and "start l = skip_space (input l) p" and "pos l = start l"
    and "pos l \<le> length (input l)"
  shows "scan_inv ((snd y)\<lparr>state := fst y\<rparr>) p \<and> input (snd y) = input l"
proof -
  obtain b1 l1 where a1: "accept sign l = (b1, l1)" by (cases "accept sign l")
  obtain a0 l2 where a2: "accept ''0'' l1 = (a0, l2)" by (cases "accept ''0'' l1")
  obtain ax l3 where a3: "(if a0 then accept ''xX'' l2 else (False, l2)) = (ax, l3)"
    by (cases "if a0 then accept ''xX'' l2 else (False, l2)")
  let ?valid = "(if a0 \<and> ax then hexDigit else digit) @ ''_''"
  from assms(1) a1 a2 a3 obtain n4 l4 where r4: "acceptRun ?valid l3 = Some (n4, l4)"
    by (auto simp: lexNumber_def Let_def split: Option.bind_splits)
  obtain adot l5 where a5: "accept ''.'' l4 = (adot, l5)" by (cases "accept ''.'' l4")
  from assms(1) a1 a2 a3 r4 a5 obtain n6 l6
    where r6: "(if adot then acceptRun ?valid l5 else Some (0, l5)) = Some (n6, l6)"
    by (auto simp: lexNumber_def Let_def split: Option.bind_splits)
  obtain aexp l7 where a7: "accept ''eEpP'' l6 = (aexp, l7)" by (cases "accept ''eEpP'' l6")
  obtain b8 l8 where a8: "accept sign l7 = (b8, l8)" by (cases "accept sign l7")
  from assms(1) a1 a2 a3 r4 a5 r6 a7 a8 obtain n9 l9
    where r9: "(if aexp then acceptRun (digit @ ''_'') l8 else Some (0, l7)) = Some (n9, l9)"
      and y: "snd y = emit tokenNumber l9" "fst y = Some LexDefault"
    by (auto simp: lexNumber_def Let_def split: Option.bind_splits if_splits)
  have ad1: "adv l l1" using accept_adv [OF a1] .
  have ad2: "adv l l2" using ad1 accept_adv [OF a2] by (rule adv_trans)
  have "adv l2 l3" using a3 accept_adv [of "''xX''" l2 ax l3] adv_width [of l2 "width l2"]
    by (auto split: if_splits)
  with ad2 have ad3: "adv l l3" by (rule adv_trans)
  have ad4: "adv l l4" using ad3 acceptRun_adv [OF r4] by (rule adv_trans)
  have ad5: "adv l l5" using ad4 accept_adv [OF a5] by (rule adv_trans)
  have "adv l5 l6" using r6 acceptRun_adv [of ?valid l5 n6 l6] adv_width [of l5 "width l5"]
    by (auto split: if_splits)
  with ad5 have ad6: "adv l l6" by (rule adv_trans)
  have ad7: "adv l l7" using ad6 accept_adv [OF a7] by (rule adv_trans)
  have ad8: "adv l l8" using ad7 accept_adv [OF a8] by (rule adv_trans)
  have "adv l7 l9"
    using r9 accept_adv [OF a8] acceptRun_adv [of "digit @ ''_''" l8 n9 l9]
      adv_width [of l7 "width l7"]
    by (auto split: if_splits intro: adv_trans)
  with ad7 have ad9: "adv l l9" by (rule adv_trans)
  with assms(2-6) have "CHR '';'' \<notin> set (input l9)" "tokens l9 = []"
    "start l9 = skip_space (input l9) p" "start l9 \<le> pos l9" "pos l9 \<le> length (input l9)"
    by (auto simp: adv_def)
  from emit_scan_inv [OF this, of tokenNumber "Some LexDefault"] y ad9 show ?thesis
    by (simp add: tokenNumber_def tokenError_def tokenString_def adv_def)
qed

lemma lexKeyword_inv:
  assumes "lexKeyword l = Some y" and "CHR '';'' \<notin> set (input l)" and "tokens l = []"
    and "start l = skip_space (input l) p" and "pos l = start l"
    and "pos l \<le> length (input l)"
  shows "scan_inv ((snd y)\<lparr>state := fst y\<rparr>) p \<and> input (snd y) = input l"
proof -
  from assms(1) obtain n l1 where r: "acceptRun keyword l = Some (n, l1)"
    and y: "snd y = emit (keyword_kind (lexeme l1)) l1" "fst y = Some LexDefault"
    by (auto simp: lexKeyword_kind split: Option.bind_splits)
  from acceptRun_adv [OF r] assms(2-6) have "CHR '';'' \<notin> set (input l1)" "tokens l1 = []"
    "start l1 = skip_space (input l1) p" "start l1 \<le> pos l1" "pos l1 \<le> length (input l1)"
    and i: "input l1 = input l"
    by (auto simp: adv_def)
  from emit_scan_inv [OF this(1-5), of "keyword_kind (lexeme l1)" "Some LexDefault"]
    keyword_kind_ge7 [of "lexeme l1"] y i
  show ?thesis by (simp add: tokenError_def tokenString_def)
qed

lemma lexIdentifier_inv:
  assumes "lexIdentifier l = Some y" and "CHR '';'' \<notin> set (input l)" and "tokens l = []"
    and "start l = skip_space (input l) p" and "pos l = start l"
    and "pos l \<le> length (input l)"
  shows "scan_inv ((snd y)\<lparr>state := fst y\<rparr>) p \<and> input (snd y) = input l"
proof -
  from assms(1) obtain n l1 where r: "acceptRun idChar l = Some (n, l1)"
    and y: "(fst y = fst (errorf ''empty identifier'' [] l1)
          \<and> snd y = snd (errorf ''empty identifier'' [] l1))
        \<or> (fst y = Some LexDefault \<and> snd y = emit tokenIdent l1)"
    by (auto simp: lexIdentifier_def split: Option.bind_splits if_splits)
  from acceptRun_adv [OF r] assms(2-6) have f: "CHR '';'' \<notin> set (input l1)" "tokens l1 = []"
    "start l1 = skip_space (input l1) p" "start l1 \<le> pos l1" "pos l1 \<le> length (input l1)"
    and i: "input l1 = input l"
    by (auto simp: adv_def)
  from f(4,5) have "start l1 \<le> length (input l1)" by simp
  from y errorf_scan_inv [OF f(1-3) this, of "''empty identifier''" "[]"]
    emit_scan_inv [OF f, of tokenIdent "Some LexDefault"] i
  show ?thesis by (auto simp: tokenIdent_def tokenError_def tokenString_def)
qed

lemma lexString_loop_inv:
  assumes "lexString_loop l s = Some y"
  shows "\<forall>p. CHR '';'' \<notin> set (input l) \<and> tokens l = []
      \<and> start l = skip_space (input l) p \<and> start l < pos l \<and> pos l \<le> length (input l)
    \<longrightarrow> scan_inv ((snd y)\<lparr>state := fst y\<rparr>) p \<and> input (snd y) = input l"
proof (rule lexString_loop.raw_induct
    [where P = "\<lambda>l s y. \<forall>p. CHR '';'' \<notin> set (input l) \<and> tokens l = []
      \<and> start l = skip_space (input l) p \<and> start l < pos l \<and> pos l \<le> length (input l)
    \<longrightarrow> scan_inv ((snd y)\<lparr>state := fst y\<rparr>) p \<and> input (snd y) = input l",
      OF _ assms], goal_cases)
  case (1 f l s y)
  obtain r l1 where n: "lexer_next l = (r, l1)" by (cases "lexer_next l")
  obtain res l2 where e: "escapeSeq l1 = (res, l2)" by (cases "escapeSeq l1")
  show ?case
  proof (intro allI impI)
    fix p
    assume pre: "CHR '';'' \<notin> set (input l) \<and> tokens l = []
      \<and> start l = skip_space (input l) p \<and> start l < pos l \<and> pos l \<le> length (input l)"
    have ad1: "adv l l1" using next_adv [OF n] .
    then have ad2: "adv l l2" using escapeSeq_adv [OF e] by (rule adv_trans)
    from ad1 pre have f1: "CHR '';'' \<notin> set (input l1)" "tokens l1 = []"
      "start l1 = skip_space (input l1) p" "start l1 < pos l1" "pos l1 \<le> length (input l1)"
      and i1: "input l1 = input l"
      by (auto simp: adv_def)
    from ad2 pre have f2: "CHR '';'' \<notin> set (input l2)" "tokens l2 = []"
      "start l2 = skip_space (input l2) p" "start l2 < pos l2" "pos l2 \<le> length (input l2)"
      and i2: "input l2 = input l"
      by (auto simp: adv_def)
    from 1(2) n e consider (more1) s' where "f l1 s' = Some y"
      | (more2) s' where "f l2 s' = Some y"
      | (str) "fst y = Some LexDefault" "snd y = emitWithData tokenString s l1"
      | (err1) fm a where "fst y = fst (errorf fm a l1)" "snd y = snd (errorf fm a l1)"
      | (err2) fm a where "fst y = fst (errorf fm a l2)" "snd y = snd (errorf fm a l2)"
      by (auto split: if_splits sum.splits)
    then show "scan_inv ((snd y)\<lparr>state := fst y\<rparr>) p \<and> input (snd y) = input l"
    proof cases
      case more1
      from 1(1) [OF more1] f1 i1 show ?thesis by simp
    next
      case more2
      from 1(1) [OF more2] f2 i2 show ?thesis by simp
    next
      case str
      with emitWithData_scan_inv [OF f1, of s] i1 show ?thesis by simp
    next
      case err1
      from f1(4,5) have "start l1 \<le> length (input l1)" by simp
      from errorf_scan_inv [OF f1(1-3) this, of fm a] err1 i1 show ?thesis by simp
    next
      case err2
      from f2(4,5) have "start l2 \<le> length (input l2)" by simp
      from errorf_scan_inv [OF f2(1-3) this, of fm a] err2 i2 show ?thesis by simp
    qed
  qed
qed

lemma run_scan_inv:
  assumes "scan_inv l p" and "tokens l = []" and "state l = Some fn" and "run fn l = Some y"
  shows "scan_inv ((snd y)\<lparr>state := fst y\<rparr>) p \<and> input (snd y) = input l"
proof (cases fn)
  case LexDefault
  with assms have r: "lexDefault l = Some y" by simp
  from assms(1,2,3) LexDefault
  have "CHR '';'' \<notin> set (input l) \<and> tokens l = [] \<and> start l = pos l
      \<and> skip_space (input l) (pos l) = skip_space (input l) p
      \<and> skip_space (input l) p \<le> length (input l)"
    by (simp add: scan_inv_def)
  with lexDefault_inv [OF r] show ?thesis by blast
next
  case LexBlockComment
  with assms(1,2,3) show ?thesis by (simp add: scan_inv_def)
next
  case LexNumber
  with assms have r: "lexNumber l = Some y" by simp
  from assms(1,2,3) LexNumber
  have "CHR '';'' \<notin> set (input l)" "tokens l = []" "start l = skip_space (input l) p"
    "pos l = start l" "pos l \<le> length (input l)"
    by (simp_all add: scan_inv_def)
  from lexNumber_inv [OF r this] show ?thesis .
next
  case LexKeyword
  with assms have r: "lexKeyword l = Some y" by simp
  from assms(1,2,3) LexKeyword
  have "CHR '';'' \<notin> set (input l)" "tokens l = []" "start l = skip_space (input l) p"
    "pos l = start l" "pos l \<le> length (input l)"
    by (simp_all add: scan_inv_def)
  from lexKeyword_inv [OF r this] show ?thesis .
next
  case LexComment
  with assms(1,2,3) show ?thesis by (simp add: scan_inv_def)
next
  case LexIdentifier
  with assms have r: "lexIdentifier l = Some y" by simp
  from assms(1,2,3) LexIdentifier
  have "CHR '';'' \<notin> set (input l)" "tokens l = []" "start l = skip_space (input l) p"
    "pos l = start l" "pos l \<le> length (input l)"
    by (simp_all add: scan_inv_def)
  from lexIdentifier_inv [OF r this] show ?thesis .
next
  case LexString
  with assms have r: "lexString_loop l [] = Some y" by (simp add: lexString_def)
  from assms(1,2,3) LexString
  have "CHR '';'' \<notin> set (input l) \<and> tokens l = []
      \<and> start l = skip_space (input l) p \<and> start l < pos l \<and> pos l \<le> length (input l)"
    by (simp add: scan_inv_def)
  with lexString_loop_inv [OF r] show ?thesis by blast
qed

lemma scan_inv_dequeue:
  assumes "scan_inv l p" and "tokens l = t # ts"
  shows "token_at (input l) p t (start l) \<and> scan_inv (l\<lparr>tokens := ts\<rparr>) (start l)"
proof -
  from assms have t: "ts = []" "token_at (input l) p t (start l)"
    "state l = None \<or> (state l = Some LexDefault \<and> start l = pos l)"
    and ns: "CHR '';'' \<notin> set (input l)"
    by (auto simp: scan_inv_def)
  from t(2) have "start l \<le> length (input l)" by (simp add: token_at_def)
  then have le: "skip_space (input l) (start l) \<le> length (input l)" by (rule skip_space_le)
  from t(3) have "scan_inv (l\<lparr>tokens := ts\<rparr>) (start l)"
  proof
    assume "state l = None"
    with t(1) ns le show ?thesis by (simp add: scan_inv_def)
  next
    assume "state l = Some LexDefault \<and> start l = pos l"
    with t(1) ns le show ?thesis by (simp add: scan_inv_def)
  qed
  with t(2) show ?thesis by simp
qed

lemma scan_inv_synth:
  assumes "scan_inv l p" and "k = tokenError \<or> k = tokenEOF"
  shows "token_at (input l) p \<lparr>kind = k, val = Bytes []\<rparr> (skip_space (input l) p)
    \<and> scan_inv (l\<lparr>closed := b\<rparr>) (skip_space (input l) p)"
proof -
  let ?S = "skip_space (input l) p"
  from assms(1) have le: "?S \<le> length (input l)" by (simp add: scan_inv_def)
  have "token_at (input l) ?S \<lparr>kind = k, val = Bytes []\<rparr> ?S"
    using assms(2) le
    by (auto simp: token_at_def skip_space_idem subslice_def tokenError_def tokenEOF_def
        tokenString_def)
  then have t: "token_at (input l) p \<lparr>kind = k, val = Bytes []\<rparr> ?S"
    by (simp add: token_at_skip)
  from assms(1) have "scan_inv l ?S" by (simp add: scan_inv_skip)
  then have "scan_inv (l\<lparr>closed := b\<rparr>) ?S" by (simp add: scan_inv_def)
  with t show ?thesis by simp
qed

lemma nextToken_inv:
  assumes "nextToken l = Some y"
  shows "\<forall>p. scan_inv l p
    \<longrightarrow> (\<exists>q. token_at (input l) p (fst y) q \<and> scan_inv (snd y) q)
        \<and> input (snd y) = input l"
proof (rule nextToken.raw_induct
    [where P = "\<lambda>l y. \<forall>p. scan_inv l p
      \<longrightarrow> (\<exists>q. token_at (input l) p (fst y) q \<and> scan_inv (snd y) q)
          \<and> input (snd y) = input l", OF _ assms], goal_cases)
  case (1 f l y)
  show ?case
  proof (intro allI impI)
    fix p
    assume inv: "scan_inv l p"
    show "(\<exists>q. token_at (input l) p (fst y) q \<and> scan_inv (snd y) q)
      \<and> input (snd y) = input l"
    proof (cases "tokens l")
      case (Cons t ts)
      with 1(2) have y: "fst y = t" "snd y = l\<lparr>tokens := ts\<rparr>" by auto
      from scan_inv_dequeue [OF inv Cons] y show ?thesis by auto
    next
      case Nil
      show ?thesis
      proof (cases "closed l")
        case True
        with 1(2) Nil have y: "fst y = \<lparr>kind = tokenError, val = Bytes []\<rparr>" "snd y = l"
          by (auto simp: tokenError_def)
        from scan_inv_synth [OF inv, of tokenError "closed l"] y show ?thesis by auto
      next
        case False
        show ?thesis
        proof (cases "state l")
          case None
          with 1(2) Nil False
          have y: "fst y = \<lparr>kind = tokenEOF, val = Bytes []\<rparr>" "snd y = l\<lparr>closed := True\<rparr>"
            by auto
          from scan_inv_synth [OF inv, of tokenEOF True] y show ?thesis by auto
        next
          case (Some fn)
          with 1(2) Nil False obtain st l1 where r: "run fn l = Some (st, l1)"
            and rec: "f (l1\<lparr>state := st\<rparr>) = Some y"
            by (auto split: option.splits)
          from run_scan_inv [OF inv Nil Some r]
          have "scan_inv (l1\<lparr>state := st\<rparr>) p" "input l1 = input l" by simp_all
          with 1(1) [OF rec] show ?thesis by simp
        qed
      qed
    qed
  qed
qed

lemma lexAll_tokens_at:
  assumes "lexAll l = Some ts"
  shows "\<forall>p. scan_inv l p \<longrightarrow> tokens_at (input l) p ts"
proof (rule lexAll.raw_induct
    [where P = "\<lambda>l ts. \<forall>p. scan_inv l p \<longrightarrow> tokens_at (input l) p ts", OF _ assms],
    goal_cases)
  case (1 f l ts)
  show ?case
  proof (intro allI impI)
    fix p
    assume inv: "scan_inv l p"
    from 1(2) obtain t l1 where nt: "nextToken l = Some (t, l1)"
      by (auto split: option.splits)
    from nextToken_inv [OF nt] inv obtain q where q: "token_at (input l) p t q"
      "scan_inv l1 q" "input l1 = input l"
      by auto
    from 1(2) nt consider (last) "ts = [t]" | (more) ts' where "f l1 = Some ts'" "ts = t # ts'"
      by (auto split: if_splits Option.bind_splits)
    then show "tokens_at (input l) p ts"
    proof cases
      case last
      with q(1) show ?thesis by auto
    next
      case more
      from 1(1) [OF more(1)] q(2,3) have "tokens_at (input l) q ts'" by simp
      with q(1) more(2) show ?thesis by auto
    qed
  qed
qed

lemma NewLexer_scan_inv: "CHR '';'' \<notin> set inp \<Longrightarrow> scan_inv (NewLexer inp) 0"
  using skip_space_le [of 0 inp] by (simp add: scan_inv_def NewLexer_def)

subsection \<open>A string literal of plain bytes\<close>

lemma drop_eq_ConsD:
  assumes "drop p xs = c # r"
  shows "p < length xs \<and> xs ! p = c \<and> drop (Suc p) xs = r"
proof -
  from assms have lt: "p < length xs" by (cases "p < length xs") auto
  from Cons_nth_drop_Suc [OF lt] assms show ?thesis using lt by simp
qed

lemma plain_rune:
  assumes "plain c"
  shows "(of_char c :: nat) < 0x80" and "rune c \<noteq> eof" and "c \<noteq> dquote" and "c \<noteq> backslash"
    and "c \<noteq> newline" and "c \<noteq> creturn" and "EncodeRune (rune c) = [c]"
proof -
  from assms show small: "(of_char c :: nat) < 0x80" and "c \<noteq> dquote" and "c \<noteq> backslash"
    and "c \<noteq> newline" and "c \<noteq> creturn"
    by (simp_all add: plain_def)
  from assms have "c \<noteq> CHR 0x00" by (simp add: plain_def)
  then have "(of_char c :: nat) \<noteq> of_char (CHR 0x00)" by (simp only: of_char_eq_iff) simp
  then show "rune c \<noteq> eof" by (simp add: eof_def)
  from small show "EncodeRune (rune c) = [c]" by (simp add: EncodeRune_def)
qed

lemma lexString_loop_plain:
  assumes "list_all plain body" and "drop (pos l) (input l) = body @ dquote # rest"
  shows "lexString_loop l s =
    Some (Some LexDefault,
          emitWithData tokenString (s @ body) (l\<lparr>width := 1, pos := pos l + length body + 1\<rparr>))"
  using assms
proof (induction body arbitrary: l s)
  case Nil
  then have "drop (pos l) (input l) = dquote # rest" by simp
  from drop_eq_ConsD [OF this] have lt: "pos l < length (input l)" "input l ! pos l = dquote"
    by simp_all
  then have "(of_char (input l ! pos l) :: nat) < 0x80" by (simp add: dquote_def)
  from lexer_next_ascii [OF lt(1) this] lt(2)
  have n: "lexer_next l = (rune dquote, l\<lparr>width := 1, pos := pos l + 1\<rparr>)" by simp
  show ?case
    by (subst lexString_loop.simps) (simp add: n dquote_def backslash_def)
next
  case (Cons c cs)
  then have pl: "plain c" "list_all plain cs"
    and d: "drop (pos l) (input l) = c # (cs @ dquote # rest)"
    by simp_all
  note pc = plain_rune [OF pl(1)]
  let ?l1 = "l\<lparr>width := 1, pos := pos l + 1\<rparr>"
  from drop_eq_ConsD [OF d] have lt: "pos l < length (input l)" "input l ! pos l = c"
    "drop (Suc (pos l)) (input l) = cs @ dquote # rest"
    by simp_all
  from lexer_next_ascii [OF lt(1)] lt(2) pc(1)
  have n: "lexer_next l = (rune c, ?l1)" by simp
  from lt(3) have "drop (pos ?l1) (input ?l1) = cs @ dquote # rest" by simp
  from Cons.IH [OF pl(2) this, of "s @ [c]"]
  have ih: "lexString_loop ?l1 (s @ [c]) =
    Some (Some LexDefault,
          emitWithData tokenString (s @ c # cs) (l\<lparr>width := 1, pos := pos l + length cs + 2\<rparr>))"
    by simp
  have "lexString_loop l s = lexString_loop ?l1 (s @ EncodeRune (rune c))"
    using pc(2-6) by (subst lexString_loop.simps) (simp add: n)
  with ih pc(7) show ?case by simp
qed

lemma lexAll_plain_string:
  assumes "list_all plain body"
  shows "lexAll (NewLexer (dquote # body @ [dquote])) =
    Some [\<lparr>kind = tokenString, val = Bytes body\<rparr>, \<lparr>kind = tokenEOF, val = Bytes []\<rparr>]"
proof -
  let ?inp = "dquote # body @ [dquote]"
  let ?n = "length body + 2"
  let ?l1 = "\<lparr>input = ?inp, pos = 1, start = 0, width = 1, state = Some LexString,
    tokens = [], closed = False\<rparr>"
  let ?tok = "\<lparr>kind = tokenString, val = Bytes body\<rparr>"
  let ?l3 = "\<lparr>input = ?inp, pos = ?n, start = ?n, width = 1, state = Some LexDefault,
    tokens = [], closed = False\<rparr>"
  let ?l4 = "\<lparr>input = ?inp, pos = ?n, start = ?n, width = 0, state = None,
    tokens = [], closed = False\<rparr>"
  let ?eof = "\<lparr>kind = tokenEOF, val = Bytes []\<rparr>"
  have d0: "lexDefault (NewLexer ?inp) = Some (Some LexString, ?l1\<lparr>state := Some LexDefault\<rparr>)"
    by (subst lexDefault.simps)
      (simp add: NewLexer_def lexer_next_def eof_def isSpace_def newline_def tab_def
        creturn_def dquote_def)
  have "drop (pos ?l1) (input ?l1) = body @ dquote # []" by simp
  from lexString_loop_plain [OF assms this, of "[]"]
  have s1: "lexString ?l1 = Some (Some LexDefault, ?l3\<lparr>state := Some LexString, tokens := [?tok]\<rparr>)"
    by (simp add: lexString_def emitWithData_def)
  have d3: "lexDefault ?l3 = Some (None, ?l4\<lparr>state := Some LexDefault, tokens := [?eof]\<rparr>)"
    by (subst lexDefault.simps) (simp add: lexer_next_def emit_def subslice_def eof_def)
  have n4: "nextToken (?l4\<lparr>tokens := [?eof]\<rparr>) = Some (?eof, ?l4)"
    by (subst nextToken.simps) simp
  have n3: "nextToken ?l3 = Some (?eof, ?l4)"
    using d3 n4 by (subst nextToken.simps) simp
  have n2: "nextToken (?l3\<lparr>tokens := [?tok]\<rparr>) = Some (?tok, ?l3)"
    by (subst nextToken.simps) simp
  have n1: "nextToken ?l1 = Some (?tok, ?l3)"
    using s1 n2 by (subst nextToken.simps) simp
  have n0: "nextToken (NewLexer ?inp) = Some (?tok, ?l3)"
    using d0 n1 by (subst nextToken.simps) (simp add: NewLexer_def)
  have a3: "lexAll ?l3 = Some [?eof]"
    using n3 by (subst lexAll.simps) simp
  show ?thesis
    using a3 n0
    by (subst lexAll.simps) (simp add: tokenString_def tokenEOF_def tokenError_def)
qed

subsection \<open>Evaluations of the scanner and the parser at concrete inputs\<close>

lemma eval_parse_module:
  "Parse (NewParser ''(module)'') c =
     Some (None,
           \<lparr>plex = \<lparr>input = ''(module)'', pos = 8, start = 8, width = 0, state = None,
                    tokens = [], closed = False\<rparr>,
            root = Some (Node (c + 1) OpStart [None] [])\<rparr>,
           c + 1)"
  by (simp add: lex_eval)

lemma eval_parse_dup_func:
  "Parse (NewParser ''(func $f) (func $f)'') c =
     Some (None,
           \<lparr>plex = \<lparr>input = ''(func $f) (func $f)'', pos = 19, start = 19, width = 0,
                    state = None, tokens = [], closed = False\<rparr>,
            root = Some (Node (c + 1) OpStart [None] [])\<rparr>,
           c + 1)"
  by (simp add: lex_eval)

lemma eval_parse_folded:
  "Parse (NewParser ''(i32.add (i32.const 1) (i32.const 2))'') c =
     Some (None,
           \<lparr>plex = \<lparr>input = ''(i32.add (i32.const 1) (i32.const 2))'', pos = 37, start = 37,
                    width = 0, state = None, tokens = [], closed = False\<rparr>,
            root = Some (Node (c + 1) OpStart [None] [])\<rparr>,
           c + 1)"
  by (simp add: lex_eval)

lemma eval_parse_flat:
  "Parse (NewParser ''i32.const 1 i32.const 2 i32.add'') c =
     Some (None,
           \<lparr>plex = \<lparr>input = ''i32.const 1 i32.const 2 i32.add'', pos = 31, start = 31,
                    width = 0, state = None, tokens = [], closed = False\<rparr>,
            root = Some (Node (c + 1) OpStart [None] [])\<rparr>,
           c + 1)"
  by (simp add: lex_eval)

lemma eval_ident_number:
  "lexAll (NewLexer ''$f 12'') =
     Some [\<lparr>kind = tokenIdent, val = Bytes ''$f''\<rparr>, \<lparr>kind = tokenNumber, val = Bytes ''12''\<rparr>,
           \<lparr>kind = tokenEOF, val = Bytes []\<rparr>]"
  by (simp add: lex_eval)

lemma Parse_loop_lexAll:
  assumes "Parse_loop l = Some y"
  shows "\<exists>ts. lexAll l = Some ts \<and> ts \<noteq> []
    \<and> fst y = (if kind (last ts) = tokenError then Some (LexingError (val (last ts)))
               else None)"
proof (rule Parse_loop.raw_induct
    [where P = "\<lambda>l y. \<exists>ts. lexAll l = Some ts \<and> ts \<noteq> []
      \<and> fst y = (if kind (last ts) = tokenError then Some (LexingError (val (last ts)))
                 else None)", OF _ assms], goal_cases)
  case (1 f l y)
  from 1(2) obtain t l1 where nt: "nextToken l = Some (t, l1)"
    by (auto split: option.splits)
  consider (eof) "kind t = tokenEOF" | (err) "kind t \<noteq> tokenEOF" "kind t = tokenError"
    | (other) "kind t \<noteq> tokenEOF" "kind t \<noteq> tokenError"
    by blast
  then show ?case
  proof cases
    case eof
    with 1(2) have "fst y = None" by (auto simp: nt)
    moreover have "lexAll l = Some [t]" using eof by (subst lexAll.simps) (simp add: nt)
    moreover have "kind t \<noteq> tokenError" using eof by (simp add: tokenEOF_def tokenError_def)
    ultimately show ?thesis by simp
  next
    case err
    with 1(2) have "fst y = Some (LexingError (val t))" by (auto simp: nt)
    moreover have "lexAll l = Some [t]" using err by (subst lexAll.simps) (simp add: nt)
    ultimately show ?thesis using err by simp
  next
    case other
    with 1(2) have "f l1 = Some y" by (simp add: nt)
    from 1(1) [OF this] obtain ts where ts: "lexAll l1 = Some ts" "ts \<noteq> []"
      "fst y = (if kind (last ts) = tokenError then Some (LexingError (val (last ts)))
                else None)"
      by blast
    have "lexAll l = Some (t # ts)" using other ts(1) by (subst lexAll.simps) (simp add: nt)
    with ts(2,3) show ?thesis by simp
  qed
qed

section \<open>The claims\<close>

text \<open>
  Claim C1 says that scanning terminates on every input and that an unclosed block comment
  gives one error token. In the code the loop of \<open>lexBlockComment\<close> has no case for the end of
  the input: once the input is exhausted with the nesting level still positive, \<open>next\<close>
  keeps returning \<open>eof\<close> and the loop never ends. Whenever the text after the opener \<open>(;\<close>
  has no semicolon, the scanner returns no token at all.
\<close>

theorem unclosed_block_comment_never_returns:
  assumes "CHR '';'' \<notin> set rest"
  shows "lexAll (NewLexer (''(;'' @ rest)) = None"
  by (subst lexAll.simps) (simp only: nextToken_unclosed [OF assms] option.case)

text \<open>Claim C1, at the input \<open>(; never closed\<close> of the specification.\<close>

theorem unclosed_block_comment_never_returns_witness:
  "CHR '';'' \<notin> set '' never closed'' \<and> lexAll (NewLexer ''(; never closed'') = None"
  using unclosed_block_comment_never_returns [of "'' never closed''"] by simp

text \<open>
  Claim C2 says that a well-formed block comment is skipped entirely and gives no
  parenthesis token. In the code the loop of \<open>lexBlockComment\<close> only peeks at the closing
  parenthesis and does not reset the start mark, so \<open>lexDefault\<close> then emits a
  right-parenthesis token whose bytes are the whole comment.
\<close>

theorem closed_block_comment_emits_rparen:
  "lexAll (NewLexer ''(; c ;)'') =
     Some [\<lparr>kind = tokenRParen, val = Bytes ''(; c ;)''\<rparr>, \<lparr>kind = tokenEOF, val = Bytes []\<rparr>]"
  by (simp add: lex_eval)

text \<open>
  Claim C3 says that parsing the same input twice gives identical results because the
  identifier counter is not global. In the code \<open>idCounter\<close> is a variable of the package:
  the first parse of \<open>(module)\<close> from the counter 0 numbers its root 1 and leaves the
  counter at 1, and the second parse numbers its root 2.
\<close>

theorem parse_twice_gives_different_roots:
  "Parse (NewParser ''(module)'') 0 =
     Some (None,
           \<lparr>plex = \<lparr>input = ''(module)'', pos = 8, start = 8, width = 0, state = None,
                    tokens = [], closed = False\<rparr>,
            root = Some (Node 1 OpStart [None] [])\<rparr>,
           1)
   \<and> Parse (NewParser ''(module)'') 1 =
     Some (None,
           \<lparr>plex = \<lparr>input = ''(module)'', pos = 8, start = 8, width = 0, state = None,
                    tokens = [], closed = False\<rparr>,
            root = Some (Node 2 OpStart [None] [])\<rparr>,
           2)"
  using eval_parse_module [of 0] eval_parse_module [of 1] by simp

text \<open>
  Claim C3, amended: a parse that returns increments the global counter by one and gives
  its root the new value as identifier; apart from that identifier the result does not
  depend on the counter: started from any other counter value, the same parser returns the
  same error and the same lexer.
\<close>

theorem parse_counter_only_numbers_the_root:
  assumes "Parse p c = Some (e, p', c')"
  shows "c' = c + 1 \<and> root p' = Some (Node (c + 1) OpStart [None] [])
    \<and> Parse p d = Some (e, p'\<lparr>root := Some (Node (d + 1) OpStart [None] [])\<rparr>, d + 1)"
proof -
  from assms obtain l where l: "Parse_loop (plex p) = Some (e, l)"
    and p': "p' = p\<lparr>root := Some (Node (c + 1) OpStart [None] []), plex := l\<rparr>"
    and c': "c' = c + 1"
    by (auto simp: Parse_def NewNode_def newID_def split: option.splits)
  from l have "Parse p d = Some (e, p\<lparr>root := Some (Node (d + 1) OpStart [None] []), plex := l\<rparr>,
    d + 1)"
    by (simp add: Parse_def NewNode_def newID_def)
  with p' c' show ?thesis by simp
qed

text \<open>Claim C3, amended, at the input \<open>(module)\<close> with the counters 0 and 1.\<close>

theorem parse_counter_only_numbers_the_root_witness:
  "Parse (NewParser ''(module)'') 0 =
     Some (None,
           \<lparr>plex = \<lparr>input = ''(module)'', pos = 8, start = 8, width = 0, state = None,
                    tokens = [], closed = False\<rparr>,
            root = Some (Node 1 OpStart [None] [])\<rparr>,
           1)
   \<and> Parse (NewParser ''(module)'') 1 =
     Some (None,
           \<lparr>plex = \<lparr>input = ''(module)'', pos = 8, start = 8, width = 0, state = None,
                    tokens = [], closed = False\<rparr>,
            root = Some (Node 1 OpStart [None] [])\<rparr>
           \<lparr>root := Some (Node (1 + 1) OpStart [None] [])\<rparr>,
           1 + 1)"
  using parse_counter_only_numbers_the_root [OF eval_parse_module [of 0, simplified], of 1]
    eval_parse_module [of 0]
  by simp

text \<open>
  Claim C4 says that the bytes of every atom token are the raw bytes of the source,
  string atoms included. In the code \<open>lexString\<close> emits the decoded contents: the string
  literal of three bytes (quote, \<open>a\<close>, quote) gives a token of one byte.
\<close>

theorem string_payload_is_not_raw_span:
  "lexAll (NewLexer [dquote, CHR ''a'', dquote]) =
     Some [\<lparr>kind = tokenString, val = Bytes ''a''\<rparr>, \<lparr>kind = tokenEOF, val = Bytes []\<rparr>]
   \<and> Bytes ''a'' \<noteq> Bytes [dquote, CHR ''a'', dquote]"
  by (simp add: lex_eval char_of_consts)

text \<open>
  Claim C4, amended: on an input without a semicolon byte (so without comments), the
  tokens of the token stream lie in the input in order, each one starting at the first byte
  that is not whitespace after the end of the one before, and the bytes of every token that
  is neither a string nor an error token are exactly the bytes of its own span. A string
  token carries the decoded contents of the literal instead of its raw bytes: for a literal
  whose contents are plain ASCII bytes without escapes, exactly the bytes between the
  quotes.
\<close>

theorem atom_payload_is_its_own_span:
  "(CHR '';'' \<notin> set inp \<and> lexAll (NewLexer inp) = Some ts \<longrightarrow> tokens_at inp 0 ts)
   \<and> (list_all plain body \<and> drop (pos l) (input l) = body @ dquote # rest \<longrightarrow>
        lexString_loop l s =
          Some (Some LexDefault,
                emitWithData tokenString (s @ body)
                  (l\<lparr>width := 1, pos := pos l + length body + 1\<rparr>)))
   \<and> (list_all plain body \<longrightarrow>
        lexAll (NewLexer (dquote # body @ [dquote])) =
          Some [\<lparr>kind = tokenString, val = Bytes body\<rparr>, \<lparr>kind = tokenEOF, val = Bytes []\<rparr>])"
proof (intro conjI impI)
  assume a: "CHR '';'' \<notin> set inp \<and> lexAll (NewLexer inp) = Some ts"
  then have "scan_inv (NewLexer inp) 0" by (simp add: NewLexer_scan_inv)
  moreover have "input (NewLexer inp) = inp" by (simp add: NewLexer_def)
  ultimately show "tokens_at inp 0 ts" using lexAll_tokens_at [of "NewLexer inp" ts] a by auto
next
  assume "list_all plain body \<and> drop (pos l) (input l) = body @ dquote # rest"
  then have "list_all plain body" and "drop (pos l) (input l) = body @ dquote # rest"
    by simp_all
  then show "lexString_loop l s =
    Some (Some LexDefault,
          emitWithData tokenString (s @ body) (l\<lparr>width := 1, pos := pos l + length body + 1\<rparr>))"
    by (rule lexString_loop_plain)
next
  assume "list_all plain body"
  then show "lexAll (NewLexer (dquote # body @ [dquote])) =
    Some [\<lparr>kind = tokenString, val = Bytes body\<rparr>, \<lparr>kind = tokenEOF, val = Bytes []\<rparr>]"
    by (rule lexAll_plain_string)
qed

text \<open>
  Claim C4, amended, at the input \<open>$f 12\<close> and at the string literal with the contents
  \<open>a\<close>, after its opening quote and as a whole input.
\<close>

theorem atom_payload_is_its_own_span_witness:
  "CHR '';'' \<notin> set ''$f 12''
   \<and> lexAll (NewLexer ''$f 12'') =
       Some [\<lparr>kind = tokenIdent, val = Bytes ''$f''\<rparr>, \<lparr>kind = tokenNumber, val = Bytes ''12''\<rparr>,
             \<lparr>kind = tokenEOF, val = Bytes []\<rparr>]
   \<and> tokens_at ''$f 12'' 0
       [\<lparr>kind = tokenIdent, val = Bytes ''$f''\<rparr>, \<lparr>kind = tokenNumber, val = Bytes ''12''\<rparr>,
        \<lparr>kind = tokenEOF, val = Bytes []\<rparr>]
   \<and> list_all plain ''a''
   \<and> lexString_loop
        \<lparr>input = dquote # ''a'' @ [dquote], pos = 1, start = 0, width = 1,
         state = Some LexString, tokens = [], closed = False\<rparr> [] =
       Some (Some LexDefault,
             \<lparr>input = dquote # ''a'' @ [dquote], pos = 3, start = 3, width = 1,
              state = Some LexString, tokens = [\<lparr>kind = tokenString, val = Bytes ''a''\<rparr>],
              closed = False\<rparr>)
   \<and> lexAll (NewLexer (dquote # ''a'' @ [dquote])) =
       Some [\<lparr>kind = tokenString, val = Bytes ''a''\<rparr>, \<lparr>kind = tokenEOF, val = Bytes []\<rparr>]"
proof -
  let ?l = "\<lparr>input = dquote # ''a'' @ [dquote], pos = 1, start = 0, width = 1,
    state = Some LexString, tokens = [], closed = False\<rparr>"
  have p: "list_all plain ''a''"
    by (simp add: plain_def dquote_def backslash_def newline_def creturn_def)
  have s: "CHR '';'' \<notin> set ''$f 12''" by simp
  have d: "drop (pos ?l) (input ?l) = ''a'' @ dquote # []" by simp
  note t = atom_payload_is_its_own_span
    [of "''$f 12''"
      "[\<lparr>kind = tokenIdent, val = Bytes ''$f''\<rparr>, \<lparr>kind = tokenNumber, val = Bytes ''12''\<rparr>,
        \<lparr>kind = tokenEOF, val = Bytes []\<rparr>]" "''a''" ?l "[]" "[]"]
  from t s eval_ident_number have "tokens_at ''$f 12'' 0
       [\<lparr>kind = tokenIdent, val = Bytes ''$f''\<rparr>, \<lparr>kind = tokenNumber, val = Bytes ''12''\<rparr>,
        \<lparr>kind = tokenEOF, val = Bytes []\<rparr>]"
    by blast
  moreover from t p d have "lexString_loop ?l [] =
    Some (Some LexDefault,
          emitWithData tokenString ([] @ ''a'') (?l\<lparr>width := 1, pos := pos ?l + length ''a'' + 1\<rparr>))"
    by blast
  then have "lexString_loop ?l [] =
       Some (Some LexDefault,
             \<lparr>input = dquote # ''a'' @ [dquote], pos = 3, start = 3, width = 1,
              state = Some LexString, tokens = [\<lparr>kind = tokenString, val = Bytes ''a''\<rparr>],
              closed = False\<rparr>)"
    by (simp add: emitWithData_def)
  moreover from t p have "lexAll (NewLexer (dquote # ''a'' @ [dquote])) =
       Some [\<lparr>kind = tokenString, val = Bytes ''a''\<rparr>, \<lparr>kind = tokenEOF, val = Bytes []\<rparr>]"
    by blast
  ultimately show ?thesis using s p eval_ident_number by blast
qed

text \<open>
  Claim C5 says that an escape of two hex digits decodes to the one byte of that value,
  for all values up to 0xFF. In the code \<open>escapeSeq\<close> converts the value through
  \<open>string(rune(v))\<close>, the UTF-8 encoding of the code point: the literal with the escape
  \<open>ff\<close> gives the two bytes C3 BF, not the byte FF.
\<close>

theorem hex_escape_ff_is_two_bytes:
  "lexAll (NewLexer ([dquote, backslash] @ ''ff'' @ [dquote])) =
     Some [\<lparr>kind = tokenString, val = Bytes [CHR 0xC3, CHR 0xBF]\<rparr>,
           \<lparr>kind = tokenEOF, val = Bytes []\<rparr>]"
  by (simp add: lex_eval char_of_consts)

text \<open>
  Claim C6 says that a unicode escape takes one to six hex digits and decodes code points
  above 0xFFFF. In the code the value is parsed with a bit size of 16, so \<open>u{10000}\<close> gives
  the encoding EF BF BF of U+FFFF, and the loop reads up to seven digits, so \<open>u{0000041}\<close>
  is accepted.
\<close>

theorem unicode_escape_saturates_and_takes_seven_digits:
  "lexAll (NewLexer ([dquote, backslash] @ ''u{10000}'' @ [dquote])) =
     Some [\<lparr>kind = tokenString, val = Bytes [CHR 0xEF, CHR 0xBF, CHR 0xBF]\<rparr>,
           \<lparr>kind = tokenEOF, val = Bytes []\<rparr>]
   \<and> lexAll (NewLexer ([dquote, backslash] @ ''u{0000041}'' @ [dquote])) =
     Some [\<lparr>kind = tokenString, val = Bytes ''A''\<rparr>, \<lparr>kind = tokenEOF, val = Bytes []\<rparr>]"
  by (simp add: lex_eval char_of_consts)

text \<open>
  Claim C7 says that parsing \<open>(func $f) (func $f)\<close> returns a resolution error. In the
  code \<open>Parse\<close> only reads the tokens: this input has no lexical error and \<open>Parse\<close> returns
  \<open>nil\<close>.
\<close>

theorem duplicate_func_name_parses:
  "Parse (NewParser ''(func $f) (func $f)'') 0 =
     Some (None,
           \<lparr>plex = \<lparr>input = ''(func $f) (func $f)'', pos = 19, start = 19, width = 0,
                    state = None, tokens = [], closed = False\<rparr>,
            root = Some (Node 1 OpStart [None] [])\<rparr>,
           1)"
  using eval_parse_dup_func [of 0] by simp

text \<open>
  Claim C7, amended: the only error that \<open>Parse\<close> returns is a lexing error. When \<open>Parse\<close>
  returns, the token stream of the input ends with an end-of-input or an error token, and
  the result is the lexing error of that error token, or \<open>nil\<close>; no name is bound or
  resolved.
\<close>

theorem parse_error_is_lexing_error:
  assumes "Parse (NewParser inp) c = Some (e, p, c')"
  shows "\<exists>ts. lexAll (NewLexer inp) = Some ts \<and> ts \<noteq> []
    \<and> e = (if kind (last ts) = tokenError then Some (LexingError (val (last ts)))
           else None)"
proof -
  from assms obtain l where "Parse_loop (NewLexer inp) = Some (e, l)"
    by (auto simp: Parse_def NewParser_def split: option.splits prod.splits)
  from Parse_loop_lexAll [OF this] show ?thesis by simp
qed

text \<open>Claim C7, amended, at the input \<open>(func $f) (func $f)\<close>.\<close>

theorem parse_error_is_lexing_error_witness:
  "Parse (NewParser ''(func $f) (func $f)'') 0 =
     Some (None,
           \<lparr>plex = \<lparr>input = ''(func $f) (func $f)'', pos = 19, start = 19, width = 0,
                    state = None, tokens = [], closed = False\<rparr>,
            root = Some (Node 1 OpStart [None] [])\<rparr>,
           1)
   \<and> (\<exists>ts. lexAll (NewLexer ''(func $f) (func $f)'') = Some ts \<and> ts \<noteq> []
        \<and> None = (if kind (last ts) = tokenError then Some (LexingError (val (last ts)))
                  else None))"
  using parse_error_is_lexing_error [OF eval_parse_dup_func [of 0]] eval_parse_dup_func [of 0]
  by simp

text \<open>
  Claim C8 says that a folded instruction and its flat form parse to the same flat
  instruction sequence, \<open>i32.const 1; i32.const 2; i32.add\<close> for the example. In the code
  \<open>Parse\<close> builds no instruction: after the folded example the root is the start node alone,
  with the single \<open>nil\<close> argument.
\<close>

theorem folded_add_is_not_flattened:
  "Parse (NewParser ''(i32.add (i32.const 1) (i32.const 2))'') 0 =
     Some (None,
           \<lparr>plex = \<lparr>input = ''(i32.add (i32.const 1) (i32.const 2))'', pos = 37, start = 37,
                    width = 0, state = None, tokens = [], closed = False\<rparr>,
            root = Some (Node 1 OpStart [None] [])\<rparr>,
           1)"
  using eval_parse_folded [of 0] by simp

text \<open>
  Claim C8, amended: whatever the input, a parse that returns leaves as root the start
  node alone (no instruction node), numbered from the counter; so the folded and the flat
  form of an instruction, parsed from the same counter, leave the same root.
\<close>

theorem parse_leaves_only_start_node:
  assumes "Parse (NewParser a) c = Some (e1, p1, c1)"
    and "Parse (NewParser b) c = Some (e2, p2, c2)"
  shows "root p1 = Some (Node (c + 1) OpStart [None] []) \<and> root p2 = root p1"
  using assms by (auto simp: Parse_def NewNode_def newID_def split: option.splits)

text \<open>Claim C8, amended, at the folded and the flat form of the example.\<close>

theorem parse_leaves_only_start_node_witness:
  "Parse (NewParser ''(i32.add (i32.const 1) (i32.const 2))'') 0 =
     Some (None,
           \<lparr>plex = \<lparr>input = ''(i32.add (i32.const 1) (i32.const 2))'', pos = 37, start = 37,
                    width = 0, state = None, tokens = [], closed = False\<rparr>,
            root = Some (Node 1 OpStart [None] [])\<rparr>,
           1)
   \<and> Parse (NewParser ''i32.const 1 i32.const 2 i32.add'') 0 =
     Some (None,
           \<lparr>plex = \<lparr>input = ''i32.const 1 i32.const 2 i32.add'', pos = 31, start = 31,
                    width = 0, state = None, tokens = [], closed = False\<rparr>,
            root = Some (Node 1 OpStart [None] [])\<rparr>,
           1)
   \<and> Some (Node 1 OpStart [None] []) = Some (Node (0 + 1) OpStart [None] [])"
  using parse_leaves_only_start_node [OF eval_parse_folded [of 0] eval_parse_flat [of 0]]
    eval_parse_folded [of 0] eval_parse_flat [of 0]
  by simp

text \<open>
  Claim C9: the one-byte inputs \<open>+\<close> and \<open>-\<close> are scanned as a number token whose bytes are
  the sign alone, followed by the end-of-input token; there is no error token.
\<close>

theorem lone_sign_is_number_token:
  "lexAll (NewLexer ''+'') =
     Some [\<lparr>kind = tokenNumber, val = Bytes ''+''\<rparr>, \<lparr>kind = tokenEOF, val = Bytes []\<rparr>]
   \<and> lexAll (NewLexer ''-'') =
     Some [\<lparr>kind = tokenNumber, val = Bytes ''-''\<rparr>, \<lparr>kind = tokenEOF, val = Bytes []\<rparr>]"
  by (simp add: lex_eval)

text \<open>
  Claim C10: inside a string literal, at any point and whatever has been decoded so far, a
  backslash followed by \<open>n\<close> ends the scanning: \<open>lexString\<close> returns no next state and sends
  one error token.
\<close>

theorem escape_n_is_lexical_error:
  assumes "pos l + 1 < length (input l)" and "input l ! pos l = backslash"
    and "input l ! (pos l + 1) = CHR ''n''"
  shows "lexString_loop l s =
    Some (None,
          l\<lparr>pos := pos l + 2, width := 1,
            tokens := tokens l @
              [\<lparr>kind = tokenError,
                val = Message ''invalid escape sequence: %q''
                        [ArgBytes (subslice (input l) (start l) (pos l + 2))]\<rparr>]\<rparr>)"
proof -
  let ?l1 = "l\<lparr>width := 1, pos := pos l + 1\<rparr>"
  let ?l2 = "l\<lparr>width := 1, pos := pos l + 2\<rparr>"
  have n1: "lexer_next l = (rune backslash, ?l1)"
    using lexer_next_ascii [of l] assms(1,2) by (simp add: backslash_def)
  have n2: "lexer_next ?l1 = (rune CHR ''n'', ?l2)"
    using lexer_next_ascii [of ?l1] assms(1,3) by simp
  have e: "escapeSeq ?l1 = (Inl (UnexpectedEscape (rune CHR ''n'')), ?l2)"
    unfolding escapeSeq_def n2
    by (simp add: isHexDigit_def IndexRune_def hexDigit_def digit_def dquote_def squote_def
        backslash_def)
  from e show ?thesis
    by (subst lexString_loop.simps) (simp add: n1 errorf_def)
qed

text \<open>Claim C10, at the literal \<open>"\n"\<close>, after the opening quote.\<close>

theorem escape_n_is_lexical_error_witness:
  "lexString_loop
     \<lparr>input = [dquote, backslash, CHR ''n'', dquote], pos = 1, start = 0, width = 1,
      state = Some LexString, tokens = [], closed = False\<rparr> [] =
   Some (None,
         \<lparr>input = [dquote, backslash, CHR ''n'', dquote], pos = 3, start = 0, width = 1,
          state = Some LexString,
          tokens = [\<lparr>kind = tokenError,
                     val = Message ''invalid escape sequence: %q''
                             [ArgBytes [dquote, backslash, CHR ''n'']]\<rparr>],
          closed = False\<rparr>)"
  using escape_n_is_lexical_error
    [of "\<lparr>input = [dquote, backslash, CHR ''n'', dquote], pos = 1, start = 0, width = 1,
          state = Some LexString, tokens = [], closed = False\<rparr>" "[]"]
  by (simp add: subslice_def)

end
